theory Spec2Isabelle
  imports Complex_Main "HOL-Library.Word"
begin

section \<open>Metagrain: the granular synthesis operators\<close>

text \<open>
  The development follows \<^verbatim>\<open>GranularSynthNode.cpp\<close> (the operator
  \<^verbatim>\<open>FGranularSynthOperator\<close> and, in the same file, the older
  \<^verbatim>\<open>FGranularSynthOperator_Step8\<close>) and \<^verbatim>\<open>GranularWavePlayerSmoothNode.cpp\<close>
  (\<^verbatim>\<open>FGranularWavePlayerSmoothOperator\<close>).

  Conventions of the embedding.
  \<^item> A C++ \<^verbatim>\<open>float\<close> is a \<^typ>\<open>real\<close>; infinities and NaN are not represented.
    Single-precision rounding is the function \<open>ToFloat\<close>, applied where the setup of a
    grain computes a duration, a count of samples or frames, or a bound (the resolution of
    the source segment, the counts of a reversed voice, the duration of the wave, the
    reader of the Smooth operator); the scheduler, the envelope and the mixer are over the
    reals. An \<^verbatim>\<open>int32\<close> is an \<^typ>\<open>int\<close>, and the conversions from \<^verbatim>\<open>float\<close> are
    confined to its range; the \<^verbatim>\<open>uint32\<close> arithmetic of the decode size is done on
    \<^typ>\<open>32 word\<close>.
  \<^item> The operator object is a record that every member function takes and returns.
  \<^item> What the host supplies (the wave reader, the deinterleaver factory, the resampler, the
    random number generator, two constants of the reader class) is the record \<open>Env\<close>.
  \<^item> An output trigger is the list of the frames passed to \<^verbatim>\<open>TriggerFrame\<close> since the
    last \<^verbatim>\<open>AdvanceBlock\<close>.
\<close>

subsection \<open>Numeric helpers of the host library\<close>

definition Clamp :: "real \<Rightarrow> real \<Rightarrow> real \<Rightarrow> real" where
  "Clamp X MinValue MaxValue = max (min X MaxValue) MinValue"

definition ClampInt :: "int \<Rightarrow> int \<Rightarrow> int \<Rightarrow> int" where
  "ClampInt X MinValue MaxValue = max (min X MaxValue) MinValue"

text \<open>The conversions \<^verbatim>\<open>FMath::CeilToInt\<close> and \<^verbatim>\<open>FMath::FloorToInt\<close> return an
  \<^verbatim>\<open>int32\<close>. A value outside the range of \<^verbatim>\<open>int32\<close> converts to \<open>- 2^31\<close>, which is
  what the conversion instruction of the x86 target delivers.\<close>

definition ToInt32 :: "int \<Rightarrow> int" where
  "ToInt32 n = (if - 2147483648 \<le> n \<and> n \<le> 2147483647 then n else - 2147483648)"

definition CeilToInt :: "real \<Rightarrow> int" where
  "CeilToInt x = ToInt32 \<lceil>x\<rceil>"

definition FloorToInt :: "real \<Rightarrow> int" where
  "FloorToInt x = ToInt32 \<lfloor>x\<rfloor>"

text \<open>The cast \<^verbatim>\<open>static_cast<int32>(float)\<close> rounds towards zero.\<close>

definition TruncToInt :: "real \<Rightarrow> int" where
  "TruncToInt x = (if 0 \<le> x then \<lfloor>x\<rfloor> else \<lceil>x\<rceil>)"

text \<open>\<^verbatim>\<open>FMath::Fmod\<close>: the remainder has the sign of the dividend and is exact; a divisor
  of at most \<^verbatim>\<open>UE_SMALL_NUMBER\<close> (\<^verbatim>\<open>1.e-8f\<close>) in absolute value gives zero.\<close>

definition Fmod :: "real \<Rightarrow> real \<Rightarrow> real" where
  "Fmod X Y = (if \<bar>Y\<bar> \<le> 11258999 / 1125899906842624 then 0 else X - Y * real_of_int (TruncToInt (X / Y)))"

text \<open>\<^verbatim>\<open>FMath::FRandRange(Min, Max)\<close> is \<^verbatim>\<open>Min + (Max - Min) * FRand()\<close>; the argument
  \<open>u\<close> is the value drawn by \<^verbatim>\<open>FRand\<close>.\<close>

definition FRandRange :: "real \<Rightarrow> real \<Rightarrow> real \<Rightarrow> real" where
  "FRandRange InMin InMax u = InMin + (InMax - InMin) * u"

definition Pow :: "real \<Rightarrow> real \<Rightarrow> real" where
  "Pow A B = A powr B"

text \<open>Integer division of C++ rounds towards zero.\<close>

definition IntDiv :: "int \<Rightarrow> int \<Rightarrow> int" where
  "IntDiv a b = sgn a * sgn b * (\<bar>a\<bar> div \<bar>b\<bar>)"

subsection \<open>Single-precision arithmetic\<close>

text \<open>The operators compute in \<^verbatim>\<open>float\<close>. Values are modelled as reals; where the
  rounding of an operation decides a result (a count of samples or frames, a bound of a
  clamp, a comparison with a bound), the operation is followed by \<open>ToFloat\<close>, the
  rounding of a real to the nearest single-precision number, ties to the even mantissa.
  \<open>FloatExponent x\<close> is the binary exponent of \<open>x\<close>, searched from 127 down to - 126 (the
  exponent of the subnormal numbers), and the spacing of the numbers around \<open>x\<close> is
  \<open>Pow2 (FloatExponent x - 23)\<close>. Infinities and NaN are not modelled: a value beyond
  the largest finite number is rounded with the spacing of the last binade.\<close>

definition Pow2 :: "int \<Rightarrow> real" where
  "Pow2 e = (if 0 \<le> e then 2 ^ nat e else 1 / 2 ^ nat (- e))"

fun FloatExponentFrom :: "nat \<Rightarrow> real \<Rightarrow> int" where
  "FloatExponentFrom 0 x = - 126"
| "FloatExponentFrom (Suc n) x =
     (if Pow2 (int n - 125) \<le> x then int n - 125 else FloatExponentFrom n x)"

definition FloatExponent :: "real \<Rightarrow> int" where
  "FloatExponent x = FloatExponentFrom 253 \<bar>x\<bar>"

definition RoundHalfEven :: "real \<Rightarrow> int" where
  "RoundHalfEven y =
     (let f = \<lfloor>y\<rfloor>
      in if y - real_of_int f < 1 / 2 then f
         else if 1 / 2 < y - real_of_int f then f + 1
         else if even f then f else f + 1)"

definition ToFloat :: "real \<Rightarrow> real" where
  "ToFloat x = real_of_int (RoundHalfEven (x / Pow2 (FloatExponent x - 23)))
                 * Pow2 (FloatExponent x - 23)"

subsection \<open>Constants of the operator\<close>

text \<open>The constants are \<^verbatim>\<open>float\<close> literals: \<^verbatim>\<open>0.005f\<close> is \<open>5368709 / 2^30\<close>, \<^verbatim>\<open>0.01f\<close> is
  \<open>5368709 / 2^29\<close>, \<^verbatim>\<open>1e-6f\<close> is \<open>8796093 / 2^43\<close> and \<^verbatim>\<open>1.e-8f\<close> is \<open>11258999 / 2^50\<close>.\<close>

definition MaxGrainVoices :: int where "MaxGrainVoices = 32"
definition MinGrainDurationSeconds :: real where "MinGrainDurationSeconds = 5368709 / 1073741824"
definition MaxAbsPitchShiftSemitones :: real where "MaxAbsPitchShiftSemitones = 60"
definition DeinterleaveBlockSizeFrames :: int where "DeinterleaveBlockSizeFrames = 256"
definition MinActiveVoicesParam :: real where "MinActiveVoicesParam = 5368709 / 536870912"
definition MinSamplesPerGrainInterval :: real where "MinSamplesPerGrainInterval = 1"
definition Epsilon :: real where "Epsilon = 8796093 / 8796093022208"
definition UE_SMALL_NUMBER :: real where "UE_SMALL_NUMBER = 11258999 / 1125899906842624"
definition FloatMax :: real where "FloatMax = 340282346638528859811704183484516925440"

subsection \<open>Data model\<close>

record ReaderSettings =
  StartTimeInSeconds :: real
  bIsLooping :: bool
  MaxDecodeSizeInFrames :: "32 word"

text \<open>The default-constructed \<^verbatim>\<open>FSoundWaveProxyReader::FSettings\<close> of the probe reader.\<close>

definition DefaultReaderSettings :: ReaderSettings where
  "DefaultReaderSettings =
     \<lparr>StartTimeInSeconds = 0, bIsLooping = False, MaxDecodeSizeInFrames = 1024\<rparr>"

text \<open>A sound wave proxy: its identity (the shared pointer that the operator compares) and
  what a reader opened on it reports.\<close>

record SoundWaveProxy =
  ProxyId :: nat
  NumFramesInWave :: int
  WaveSampleRate :: real
  WaveNumChannels :: int

record WaveAsset =
  IsSoundWaveValid :: bool
  GetSoundWaveProxy :: "SoundWaveProxy option"

text \<open>The struct \<^verbatim>\<open>FGrainVoice\<close>. A unique pointer is an option: the reader is known by
  the settings it was created with, the resampler by its frame ratio. The circular buffer
  and the two scratch buffers are owned by the external streaming pipeline and are not
  fields of the model.\<close>

record FGrainVoice =
  Reader :: "ReaderSettings option"
  Resampler :: "real option"
  bIsActive :: bool
  NumChannels :: int
  SamplesRemaining :: int
  SamplesPlayed :: int
  TotalGrainSamples :: int
  PanPosition :: real
  VolumeScale :: real
  bIsReversed :: bool
  FullGrainSegmentBuffer :: "real list list"
  FullGrainSegmentReadOffset :: int

text \<open>What one call of the resampler returns for a voice: the number of frames produced and
  the samples of the output buffer, by channel and frame.\<close>

record Resampled =
  FramesProduced :: int
  ChannelSample :: "nat \<Rightarrow> nat \<Rightarrow> real"

record Env =
  FRand :: "nat \<Rightarrow> real"
  CreateReader :: "SoundWaveProxy \<Rightarrow> ReaderSettings \<Rightarrow> bool"
  CreateDeinterleave :: "int \<Rightarrow> bool"
  PopAudio :: "SoundWaveProxy \<Rightarrow> ReaderSettings \<Rightarrow> int \<Rightarrow> real list"
  ProcessAndConsumeAudio :: "nat \<Rightarrow> FGrainVoice \<Rightarrow> int \<Rightarrow> Resampled"
  DecodeSizeQuantizationInFrames :: "32 word"
  DefaultMinDecodeSizeInFrames :: "32 word"

record Inputs =
  PlayTrigger :: "int list"
  StopTrigger :: "int list"
  WaveAssetInput :: WaveAsset
  GrainDurationMsInput :: real
  DurationRandMsInput :: real
  ActiveVoicesInput :: real
  TimeJitterInput :: real
  StartPointTimeInput :: real
  StartPointRandMsInput :: real
  ReverseChanceInput :: real
  AttackTimePercentInput :: real
  DecayTimePercentInput :: real
  AttackCurveInput :: real
  DecayCurveInput :: real
  PitchShiftInput :: real
  PitchRandInput :: real
  PanInput :: real
  PanRandInput :: real
  VolumeRandInput :: real
  WarmStartInput :: bool

text \<open>The member variables of \<^verbatim>\<open>FGranularSynthOperator\<close>. \<open>RandCount\<close> is the number of
  values drawn so far from the host's random number generator.\<close>

record Operator =
  SampleRate :: real
  BlockSize :: int
  bIsPlaying :: bool
  SamplesUntilNextGrain :: real
  GrainVoices :: "FGrainVoice list"
  CurrentWaveProxy :: "SoundWaveProxy option"
  CachedSoundWaveDuration :: real
  CurrentNumChannels :: int
  ConvertDeinterleave :: bool
  OnPlayTrigger :: "int list"
  OnFinishedTrigger :: "int list"
  OnGrainTriggered :: "int list"
  AudioOutputLeft :: "real list"
  AudioOutputRight :: "real list"
  OutputGrainStartTimeRef :: real
  OutputGrainDurationSecRef :: real
  OutputGrainIsReversedRef :: bool
  OutputGrainVolumeRef :: real
  OutputGrainPitchRef :: real
  OutputGrainPanRef :: real
  RandCount :: nat

subsection \<open>Output triggers and audio buffers\<close>

definition TriggerFrame :: "int \<Rightarrow> int list \<Rightarrow> int list" where
  "TriggerFrame f t = t @ [f]"

definition AdvanceBlock :: "int list \<Rightarrow> int list" where
  "AdvanceBlock t = []"

definition Zero :: "real list \<Rightarrow> real list" where
  "Zero buf = map (\<lambda>_. 0) buf"

text \<open>\<^verbatim>\<open>FMemory::Memset(Ptr, 0, BlockSize * sizeof(float))\<close> on a buffer.\<close>

definition Memset0 :: "int \<Rightarrow> real list \<Rightarrow> real list" where
  "Memset0 n buf = replicate (min (nat n) (length buf)) 0 @ drop (nat n) buf"

text \<open>\<^verbatim>\<open>Audio::ArrayMixIn(In, Out, Gain)\<close>: \<^verbatim>\<open>Out[i] += In[i] * Gain\<close> over the
  view; the rest of the buffer is untouched.\<close>

fun ArrayMixIn :: "real list \<Rightarrow> real list \<Rightarrow> real \<Rightarrow> real list" where
  "ArrayMixIn [] out g = out"
| "ArrayMixIn (x # xs) [] g = []"
| "ArrayMixIn (x # xs) (y # ys) g = (y + x * g) # ArrayMixIn xs ys g"

subsection \<open>The voice pool\<close>

definition ResetVoice :: "FGrainVoice \<Rightarrow> FGrainVoice" where
  "ResetVoice v = v\<lparr>bIsActive := False, NumChannels := 0, SamplesRemaining := 0,
     SamplesPlayed := 0, TotalGrainSamples := 0, PanPosition := 0, VolumeScale := 1,
     bIsReversed := False, FullGrainSegmentBuffer := [], FullGrainSegmentReadOffset := 0,
     Reader := None, Resampler := None\<rparr>"

definition ResetVoices :: "Operator \<Rightarrow> Operator" where
  "ResetVoices s = s\<lparr>GrainVoices := map ResetVoice (GrainVoices s)\<rparr>"

definition ActiveVoiceCount :: "FGrainVoice list \<Rightarrow> nat" where
  "ActiveVoiceCount vs = length (filter bIsActive vs)"

text \<open>The scan \<^verbatim>\<open>for (i = 0; i < GrainVoices.Num(); ++i) if (!GrainVoices[i].bIsActive)
  { VoiceIndex = i; break; }\<close>, started at index \<open>i\<close>; \<open>-1\<close> when no slot is free.\<close>

fun FirstInactive :: "FGrainVoice list \<Rightarrow> nat \<Rightarrow> int" where
  "FirstInactive [] i = - 1"
| "FirstInactive (v # vs) i = (if \<not> bIsActive v then int i else FirstInactive vs (Suc i))"

text \<open>\<^verbatim>\<open>ConvertDeinterleave->ProcessAudio\<close> for equal input and output channel counts,
  followed by \<^verbatim>\<open>Algo::Reverse\<close> on each channel.\<close>

definition Deinterleave :: "nat \<Rightarrow> nat \<Rightarrow> real list \<Rightarrow> real list list" where
  "Deinterleave n frames xs = map (\<lambda>c. map (\<lambda>f. xs ! (f * n + c)) [0..<frames]) [0..<n]"

definition ConformDecodeSize :: "Env \<Rightarrow> 32 word" where
  "ConformDecodeSize env =
     (let DecodeSizeQuantization = DecodeSizeQuantizationInFrames env;
          MinDecodeSize = DefaultMinDecodeSizeInFrames env;
          DesiredDecodeSize = max (word_of_int DeinterleaveBlockSizeFrames) MinDecodeSize
      in ((DesiredDecodeSize + DecodeSizeQuantization - 1) div DecodeSizeQuantization)
           * DecodeSizeQuantization)"

definition GrainReaderSettings :: "Env \<Rightarrow> real \<Rightarrow> bool \<Rightarrow> ReaderSettings" where
  "GrainReaderSettings env InReaderStartTimeForSegment bInIsReversed =
     \<lparr>StartTimeInSeconds = max 0 InReaderStartTimeForSegment,
      bIsLooping = (\<not> bInIsReversed),
      MaxDecodeSizeInFrames = ConformDecodeSize env\<rparr>"

text \<open>The body of \<^verbatim>\<open>TriggerGrain\<close> after the slot has been chosen, on the chosen voice
  \<open>v\<close>: it returns what \<^verbatim>\<open>TriggerGrain\<close> returns and the voice as it is left.\<close>

definition SetupVoice ::
  "Env \<Rightarrow> SoundWaveProxy \<Rightarrow> int \<Rightarrow> int \<Rightarrow> real \<Rightarrow> real \<Rightarrow> real \<Rightarrow> real \<Rightarrow> bool \<Rightarrow> int
     \<Rightarrow> FGrainVoice \<Rightarrow> bool \<times> FGrainVoice" where
  "SetupVoice env proxy Channels InOutputGrainDurationSamples InReaderStartTimeForSegment
     InFrameRatio InPanPosition InVolumeScale bInIsReversed
     InNumSourceFramesToReadForReverseSegment v =
   (let v1 = v\<lparr>NumChannels := Channels, bIsReversed := bInIsReversed,
                FullGrainSegmentReadOffset := 0, FullGrainSegmentBuffer := []\<rparr>;
        settings = GrainReaderSettings env InReaderStartTimeForSegment bInIsReversed
    in if \<not> CreateReader env proxy settings then (False, v1\<lparr>Reader := None\<rparr>)
       else
         let v2 = v1\<lparr>Reader := Some settings, Resampler := Some InFrameRatio\<rparr>
         in if bInIsReversed then
              (let InterleavedSegmentForReverse =
                     PopAudio env proxy settings
                       (InNumSourceFramesToReadForReverseSegment * Channels);
                   SamplesActuallyRead = int (length InterleavedSegmentForReverse);
                   FramesActuallyRead = IntDiv SamplesActuallyRead Channels
               in if FramesActuallyRead > 0 then
                    (let MaxPossibleOutputSamplesFromReadSegment =
                           max 1 (CeilToInt (ToFloat (ToFloat (real_of_int FramesActuallyRead)
                                                / InFrameRatio)));
                         ActualOutputGrainSamplesForVoice =
                           max 1 (min InOutputGrainDurationSamples
                                      MaxPossibleOutputSamplesFromReadSegment)
                     in (True, v2\<lparr>FullGrainSegmentBuffer :=
                                     map rev (Deinterleave (nat Channels) (nat FramesActuallyRead)
                                                InterleavedSegmentForReverse),
                                   Reader := None,
                                   bIsActive := True,
                                   SamplesRemaining := ActualOutputGrainSamplesForVoice,
                                   SamplesPlayed := 0,
                                   TotalGrainSamples := ActualOutputGrainSamplesForVoice,
                                   PanPosition := InPanPosition,
                                   VolumeScale := InVolumeScale\<rparr>))
                  else (False, v2\<lparr>Reader := None\<rparr>))
            else (True, v2\<lparr>bIsActive := True,
                            SamplesRemaining := InOutputGrainDurationSamples,
                            SamplesPlayed := 0,
                            TotalGrainSamples := InOutputGrainDurationSamples,
                            PanPosition := InPanPosition,
                            VolumeScale := InVolumeScale\<rparr>))"

definition TriggerGrain ::
  "Env \<Rightarrow> SoundWaveProxy option \<Rightarrow> int \<Rightarrow> real \<Rightarrow> real \<Rightarrow> real \<Rightarrow> real \<Rightarrow> bool \<Rightarrow> int
     \<Rightarrow> Operator \<Rightarrow> bool \<times> Operator" where
  "TriggerGrain env InSoundWaveProxy InOutputGrainDurationSamples InReaderStartTimeForSegment
     InFrameRatio InPanPosition InVolumeScale bInIsReversed
     InNumSourceFramesToReadForReverseSegment s =
   (case InSoundWaveProxy of
      None \<Rightarrow> (False, s)
    | Some proxy \<Rightarrow>
        if CurrentNumChannels s \<le> 0 \<or> CachedSoundWaveDuration s < MinGrainDurationSeconds
        then (False, s)
        else if InOutputGrainDurationSamples \<le> 0 then (False, s)
        else if bInIsReversed \<and> InNumSourceFramesToReadForReverseSegment \<le> 0 then (False, s)
        else
          let VoiceIndex = FirstInactive (GrainVoices s) 0
          in if VoiceIndex = - 1 then (False, s)
             else
               let r = SetupVoice env proxy (CurrentNumChannels s)
                         InOutputGrainDurationSamples InReaderStartTimeForSegment InFrameRatio
                         InPanPosition InVolumeScale bInIsReversed
                         InNumSourceFramesToReadForReverseSegment
                         (GrainVoices s ! nat VoiceIndex)
               in (fst r, s\<lparr>GrainVoices := (GrainVoices s)[nat VoiceIndex := snd r]\<rparr>))"

subsection \<open>Binding a wave asset\<close>

definition ClearWaveData :: "Operator \<Rightarrow> Operator" where
  "ClearWaveData s = s\<lparr>CurrentWaveProxy := None, CachedSoundWaveDuration := 0,
     CurrentNumChannels := 0, ConvertDeinterleave := False\<rparr>"

text \<open>The duration of a wave as \<^verbatim>\<open>InitializeWaveData\<close> caches it: the frame count is cast
  to \<^verbatim>\<open>float\<close> and divided by the sample rate, which is at least 1.\<close>

definition WaveDuration :: "SoundWaveProxy \<Rightarrow> real" where
  "WaveDuration p =
     ToFloat (ToFloat (real_of_int (NumFramesInWave p)) / max 1 (WaveSampleRate p))"

definition InitializeWaveData :: "Env \<Rightarrow> SoundWaveProxy \<Rightarrow> Operator \<Rightarrow> bool \<times> Operator" where
  "InitializeWaveData env InSoundWaveProxy s =
     (if CreateReader env InSoundWaveProxy DefaultReaderSettings then
        (let Duration = WaveDuration InSoundWaveProxy;
             Channels = WaveNumChannels InSoundWaveProxy
         in if Channels \<le> 0 \<or> Duration \<le> 0 then (False, ClearWaveData s)
            else if \<not> CreateDeinterleave env Channels then (False, ClearWaveData s)
            else (True, s\<lparr>CurrentWaveProxy := Some InSoundWaveProxy,
                           CachedSoundWaveDuration := Duration,
                           CurrentNumChannels := Channels,
                           ConvertDeinterleave := True\<rparr>))
      else (False, ClearWaveData s))"

subsection \<open>Block parameters read from the inputs\<close>

definition BaseGrainDurationSeconds :: "Inputs \<Rightarrow> real" where
  "BaseGrainDurationSeconds inp = max MinGrainDurationSeconds (GrainDurationMsInput inp / 1000)"

definition MaxDurationRandSeconds :: "Inputs \<Rightarrow> real" where
  "MaxDurationRandSeconds inp = max 0 (DurationRandMsInput inp / 1000)"

definition EffectiveActiveVoices :: "Inputs \<Rightarrow> real" where
  "EffectiveActiveVoices inp = max MinActiveVoicesParam (ActiveVoicesInput inp)"

definition TimeJitterPercent :: "Inputs \<Rightarrow> real" where
  "TimeJitterPercent inp = Clamp (TimeJitterInput inp) 0 100"

definition BaseSamplesPerGrainInterval :: "Inputs \<Rightarrow> real \<Rightarrow> real" where
  "BaseSamplesPerGrainInterval inp Rate =
     (if EffectiveActiveVoices inp > 0 \<and> BaseGrainDurationSeconds inp > 0 \<and> Rate > 0
      then (BaseGrainDurationSeconds inp / EffectiveActiveVoices inp) * Rate
      else FloatMax)"

definition MaxStartPointRandMsValue :: "Inputs \<Rightarrow> real" where
  "MaxStartPointRandMsValue inp = max 0 (StartPointRandMsInput inp)"

definition ReverseChanceVal :: "Inputs \<Rightarrow> real" where
  "ReverseChanceVal inp = Clamp (ReverseChanceInput inp) 0 100"

definition AttackPercent :: "Inputs \<Rightarrow> real" where
  "AttackPercent inp = Clamp (AttackTimePercentInput inp) 0 1"

definition DecayPercent :: "Inputs \<Rightarrow> real" where
  "DecayPercent inp = Clamp (DecayTimePercentInput inp) 0 1"

definition ClampedDecayPercent :: "Inputs \<Rightarrow> real" where
  "ClampedDecayPercent inp = min (DecayPercent inp) (1 - AttackPercent inp)"

definition AttackCurveFactor :: "Inputs \<Rightarrow> real" where
  "AttackCurveFactor inp = max UE_SMALL_NUMBER (AttackCurveInput inp)"

definition DecayCurveFactor :: "Inputs \<Rightarrow> real" where
  "DecayCurveFactor inp = max UE_SMALL_NUMBER (DecayCurveInput inp)"

definition BasePitchShiftSemitones :: "Inputs \<Rightarrow> real" where
  "BasePitchShiftSemitones inp =
     Clamp (PitchShiftInput inp) (- MaxAbsPitchShiftSemitones) MaxAbsPitchShiftSemitones"

definition PitchRandSemitones :: "Inputs \<Rightarrow> real" where
  "PitchRandSemitones inp = max 0 (PitchRandInput inp)"

definition BasePan :: "Inputs \<Rightarrow> real" where
  "BasePan inp = Clamp (PanInput inp) (- 1) 1"

definition PanRandAmount :: "Inputs \<Rightarrow> real" where
  "PanRandAmount inp = Clamp (PanRandInput inp) 0 1"

definition VolumeRandPercent :: "Inputs \<Rightarrow> real" where
  "VolumeRandPercent inp = Clamp (VolumeRandInput inp) 0 100"

subsection \<open>Resolving the source segment of a grain\<close>

text \<open>The segment of the source that a grain reads: where its reader starts, where a
  reversed segment ends, the number of source frames a reversed grain reads up front, and
  whether the segment is usable (\<^verbatim>\<open>bIsValidSegment\<close>).\<close>

record SourceSegment =
  FinalReaderStartTimeForSegment :: real
  ActualSegmentEnd :: real
  NumSourceFramesToReadForSegment :: int
  bIsValidSegment :: bool

definition WrapIntoDuration :: "real \<Rightarrow> real \<Rightarrow> real" where
  "WrapIntoDuration t Duration =
     (let r = Fmod t Duration in if r < 0 then ToFloat (r + Duration) else r)"

definition ResolveReverseSegment :: "real \<Rightarrow> real \<Rightarrow> real \<Rightarrow> real \<Rightarrow> SourceSegment" where
  "ResolveReverseSegment Rate Duration ConceptualStartPointSecs SourceMaterialNeededSeconds =
     (if SourceMaterialNeededSeconds < Epsilon
      then \<lparr>FinalReaderStartTimeForSegment = 0, ActualSegmentEnd = 0,
            NumSourceFramesToReadForSegment = 0, bIsValidSegment = False\<rparr>
      else
        let ConceptualSegmentEndInSource = WrapIntoDuration ConceptualStartPointSecs Duration;
            ConceptualSegmentStartInSource =
              ToFloat (ConceptualSegmentEndInSource - SourceMaterialNeededSeconds);
            ActualSegmentStart = max 0 ConceptualSegmentStartInSource;
            ActualSegmentEnd0 = min Duration ConceptualSegmentEndInSource;
            ActualSegmentEnd1 =
              (if ActualSegmentStart = 0 \<and> SourceMaterialNeededSeconds > 0
               then min Duration SourceMaterialNeededSeconds else ActualSegmentEnd0)
        in if ActualSegmentStart \<ge> ToFloat (ActualSegmentEnd1 - Epsilon)
           then \<lparr>FinalReaderStartTimeForSegment = ActualSegmentStart,
                 ActualSegmentEnd = ActualSegmentEnd1,
                 NumSourceFramesToReadForSegment = 0, bIsValidSegment = False\<rparr>
           else
             let n = CeilToInt (ToFloat (ToFloat (ActualSegmentEnd1 - ActualSegmentStart)
                                          * Rate))
             in \<lparr>FinalReaderStartTimeForSegment = ActualSegmentStart,
                  ActualSegmentEnd = ActualSegmentEnd1,
                  NumSourceFramesToReadForSegment = n, bIsValidSegment = (\<not> n \<le> 0)\<rparr>)"

definition ResolveForwardStart :: "real \<Rightarrow> real \<Rightarrow> real" where
  "ResolveForwardStart Duration ConceptualStartPointSecs =
     max 0 (min (WrapIntoDuration ConceptualStartPointSecs Duration)
                (ToFloat (Duration - MinGrainDurationSeconds)))"

text \<open>The parameters of one grain as the loop body computes them from four random draws
  \<open>u0 \<dots> u3\<close> (start offset, duration offset, pitch offset, reverse decision). The
  base duration of the block enters with its single-precision value; the library
  functions \<^verbatim>\<open>FRandRange\<close> and \<^verbatim>\<open>Pow\<close> and the arithmetic of the pitch are over the
  reals.\<close>

record GrainParameters =
  FinalOutputGrainDurationSeconds :: real
  OutputGrainDurationSamples :: int
  FinalTargetPitchShift :: real
  FrameRatio :: real
  bFinalPlayThisGrainReverse :: bool
  Segment :: SourceSegment

definition ResolveGrain ::
  "Inputs \<Rightarrow> real \<Rightarrow> real \<Rightarrow> real \<Rightarrow> real \<Rightarrow> real \<Rightarrow> real \<Rightarrow> GrainParameters" where
  "ResolveGrain inp Rate Duration u0 u1 u2 u3 =
     (let RandomStartOffsetSeconds =
            FRandRange 0 (ToFloat (MaxStartPointRandMsValue inp / 1000)) u0;
          ConceptualStartPointSecs =
            ToFloat (StartPointTimeInput inp + RandomStartOffsetSeconds);
          DurationOffset = FRandRange 0 (MaxDurationRandSeconds inp) u1;
          DurationSeconds =
            max MinGrainDurationSeconds
              (ToFloat (ToFloat (BaseGrainDurationSeconds inp) + DurationOffset));
          DurationSamples = max 1 (CeilToInt (ToFloat (DurationSeconds * Rate)));
          PitchOffset = FRandRange (- PitchRandSemitones inp) (PitchRandSemitones inp) u2;
          PitchShift = Clamp (BasePitchShiftSemitones inp + PitchOffset)
                         (- MaxAbsPitchShiftSemitones) MaxAbsPitchShiftSemitones;
          Ratio = max UE_SMALL_NUMBER (Pow 2 (PitchShift / 12));
          Reverse = (FRandRange 0 100 u3 < ReverseChanceVal inp)
      in \<lparr>FinalOutputGrainDurationSeconds = DurationSeconds,
           OutputGrainDurationSamples = DurationSamples,
           FinalTargetPitchShift = PitchShift,
           FrameRatio = Ratio,
           bFinalPlayThisGrainReverse = Reverse,
           Segment =
             (if Reverse
              then ResolveReverseSegment Rate Duration ConceptualStartPointSecs
                     (ToFloat (DurationSeconds * Ratio))
              else \<lparr>FinalReaderStartTimeForSegment =
                       ResolveForwardStart Duration ConceptualStartPointSecs,
                     ActualSegmentEnd = 0,
                     NumSourceFramesToReadForSegment = 0,
                     bIsValidSegment = True\<rparr>)\<rparr>)"

text \<open>One iteration of the grain loop up to and including the assignment of the grain
  outputs: the result says whether \<^verbatim>\<open>TriggerGrain\<close> committed the grain and carries the
  grain's parameters. A skipped grain has drawn four random values, any other six.\<close>

definition SpawnGrain :: "Env \<Rightarrow> Inputs \<Rightarrow> Operator \<Rightarrow> bool \<times> GrainParameters \<times> Operator" where
  "SpawnGrain env inp s =
     (let k = RandCount s;
          g = ResolveGrain inp (SampleRate s) (CachedSoundWaveDuration s)
                (FRand env k) (FRand env (k + 1)) (FRand env (k + 2)) (FRand env (k + 3))
      in if \<not> bIsValidSegment (Segment g) then (False, g, s\<lparr>RandCount := k + 4\<rparr>)
         else
           let PanOffset = FRandRange (- PanRandAmount inp) (PanRandAmount inp)
                             (FRand env (k + 4));
               FinalGrainPanPosition = Clamp (BasePan inp + PanOffset) (- 1) 1;
               MinVolumeScale = 1 - VolumeRandPercent inp / 100;
               FinalGrainVolumeScale = FRandRange MinVolumeScale 1 (FRand env (k + 5));
               r = TriggerGrain env (CurrentWaveProxy s) (OutputGrainDurationSamples g)
                     (FinalReaderStartTimeForSegment (Segment g)) (FrameRatio g)
                     FinalGrainPanPosition FinalGrainVolumeScale
                     (bFinalPlayThisGrainReverse g)
                     (NumSourceFramesToReadForSegment (Segment g))
                     (s\<lparr>RandCount := k + 6\<rparr>)
           in if fst r
              then (True, g, (snd r)\<lparr>
                      OutputGrainStartTimeRef := FinalReaderStartTimeForSegment (Segment g),
                      OutputGrainDurationSecRef := FinalOutputGrainDurationSeconds g,
                      OutputGrainIsReversedRef := bFinalPlayThisGrainReverse g,
                      OutputGrainVolumeRef := FinalGrainVolumeScale,
                      OutputGrainPitchRef := FinalTargetPitchShift g,
                      OutputGrainPanRef := FinalGrainPanPosition\<rparr>)
              else (False, g, snd r))"

subsection \<open>Starting playback\<close>

definition NumVoicesToWarmStart :: "Inputs \<Rightarrow> int" where
  "NumVoicesToWarmStart inp =
     (let n0 = FloorToInt (ActiveVoicesInput inp);
          n1 = (if ActiveVoicesInput inp < 1 \<and> ActiveVoicesInput inp > 0 then 1 else n0)
      in ClampInt n1 0 MaxGrainVoices)"

fun WarmStartLoop :: "Env \<Rightarrow> Inputs \<Rightarrow> int \<Rightarrow> nat \<Rightarrow> Operator \<Rightarrow> Operator" where
  "WarmStartLoop env inp InFrame 0 s = s"
| "WarmStartLoop env inp InFrame (Suc n) s =
     (let r = SpawnGrain env inp s;
          s1 = snd (snd r)
      in WarmStartLoop env inp InFrame n
           (if fst r
            then s1\<lparr>OnGrainTriggered := TriggerFrame InFrame (OnGrainTriggered s1)\<rparr>
            else s1))"

definition FailPlayback :: "Operator \<Rightarrow> bool \<times> Operator" where
  "FailPlayback s = (False, ClearWaveData (ResetVoices s))"

definition TryStartPlayback :: "Env \<Rightarrow> Inputs \<Rightarrow> int \<Rightarrow> Operator \<Rightarrow> bool \<times> Operator" where
  "TryStartPlayback env inp InFrame s =
     (let s0 = s\<lparr>bIsPlaying := False\<rparr>
      in if \<not> IsSoundWaveValid (WaveAssetInput inp) then FailPlayback s0
         else
           case GetSoundWaveProxy (WaveAssetInput inp) of
             None \<Rightarrow> FailPlayback s0
           | Some SoundWaveProxy \<Rightarrow>
               let r = InitializeWaveData env SoundWaveProxy s0
               in if \<not> fst r then FailPlayback (snd r)
                  else
                    let s1 = ResetVoices ((snd r)\<lparr>bIsPlaying := True\<rparr>);
                        s2 = s1\<lparr>OnPlayTrigger := TriggerFrame InFrame (OnPlayTrigger s1)\<rparr>
                    in if WarmStartInput inp \<and> CurrentWaveProxy s2 \<noteq> None
                          \<and> CachedSoundWaveDuration s2 \<ge> MinGrainDurationSeconds
                          \<and> SampleRate s2 > 0
                       then
                         let s3 = WarmStartLoop env inp InFrame
                                    (nat (NumVoicesToWarmStart inp)) s2;
                             Interval = BaseSamplesPerGrainInterval inp (SampleRate s3)
                         in (True, s3\<lparr>SamplesUntilNextGrain :=
                                       (if Interval < FloatMax then Interval else FloatMax)\<rparr>)
                       else (True, s2\<lparr>SamplesUntilNextGrain := 0\<rparr>))"

subsection \<open>The grain scheduler\<close>

definition JitteredInterval :: "real \<Rightarrow> real \<Rightarrow> real \<Rightarrow> real" where
  "JitteredInterval Base JitterPercent u =
     max MinSamplesPerGrainInterval
         (Base + FRandRange (- 1) 1 u * Base * (JitterPercent / 100))"

text \<open>The loop \<^verbatim>\<open>while (SamplesUntilNextGrain <= ElapsedSamples)\<close>: the counter \<open>S\<close>, the
  number \<open>G\<close> of grains to trigger, and the index \<open>k\<close> of the next random draw.\<close>

function ScheduleGrains ::
  "(nat \<Rightarrow> real) \<Rightarrow> real \<Rightarrow> real \<Rightarrow> real \<Rightarrow> real \<Rightarrow> int \<Rightarrow> nat \<Rightarrow> real \<times> int \<times> nat" where
  "ScheduleGrains rnd Base JitterPercent Elapsed S G k =
     (if S \<le> Elapsed
      then ScheduleGrains rnd Base JitterPercent Elapsed
             (S + JitteredInterval Base JitterPercent (rnd k)) (G + 1) (Suc k)
      else (S, G, k))"
  by pat_completeness auto
termination
proof (relation "measure (\<lambda>(rnd, Base, JitterPercent, Elapsed, S, G, k). nat (\<lfloor>Elapsed - S\<rfloor> + 1))")
  show "wf (measure (\<lambda>(rnd, Base, JitterPercent, Elapsed, S, G, k). nat (\<lfloor>Elapsed - S\<rfloor> + 1)))"
    by simp
next
  fix rnd :: "nat \<Rightarrow> real" and Base JitterPercent Elapsed S :: real and G :: int and k :: nat
  assume le: "S \<le> Elapsed"
  define j where "j = JitteredInterval Base JitterPercent (rnd k)"
  have j1: "1 \<le> j"
    by (simp add: j_def JitteredInterval_def MinSamplesPerGrainInterval_def)
  have "Elapsed - (S + j) \<le> (Elapsed - S) - 1"
    using j1 by simp
  then have "\<lfloor>Elapsed - (S + j)\<rfloor> \<le> \<lfloor>(Elapsed - S) - 1\<rfloor>"
    by (rule floor_mono)
  then have a: "\<lfloor>Elapsed - (S + j)\<rfloor> \<le> \<lfloor>Elapsed - S\<rfloor> - 1"
    by simp
  have b: "0 \<le> \<lfloor>Elapsed - S\<rfloor>"
    using le by simp
  show "((rnd, Base, JitterPercent, Elapsed, S + JitteredInterval Base JitterPercent (rnd k),
          G + 1, Suc k),
         (rnd, Base, JitterPercent, Elapsed, S, G, k))
        \<in> measure (\<lambda>(rnd, Base, JitterPercent, Elapsed, S, G, k). nat (\<lfloor>Elapsed - S\<rfloor> + 1))"
    using a b by (simp add: j_def)
qed

declare ScheduleGrains.simps [simp del]

text \<open>The scheduling step of one block: the loop under its guard and the subtraction of
  the elapsed samples. The result is the counter after the block, the number of grains to
  trigger in the block, and the index of the next random draw.\<close>

definition ScheduleBlock ::
  "(nat \<Rightarrow> real) \<Rightarrow> real \<Rightarrow> real \<Rightarrow> real \<Rightarrow> real \<Rightarrow> nat \<Rightarrow> real \<times> int \<times> nat" where
  "ScheduleBlock rnd Base JitterPercent ElapsedSamples Counter k =
     (if Base > 0 \<and> Base < FloatMax
      then
        let r = ScheduleGrains rnd Base JitterPercent ElapsedSamples Counter 0 k
        in (fst r - ElapsedSamples, snd r)
      else (Counter, 0, k))"


text \<open>The grain loop \<^verbatim>\<open>for (i = 0; i < GrainsToTriggerThisBlock; ++i)\<close> of
  \<^verbatim>\<open>Execute\<close>; \<open>n\<close> counts the iterations that remain.\<close>

definition GrainTriggerFrame :: "real \<Rightarrow> real \<Rightarrow> int \<Rightarrow> int \<Rightarrow> int \<Rightarrow> real \<Rightarrow> int \<Rightarrow> int" where
  "GrainTriggerFrame Elapsed Base G i DurationSamples Counter Block =
     (let ApproxTimeOfThisGrainSpawn =
            Elapsed - (Counter + real_of_int (G - 1 - i)
                                   * (if Base > Epsilon then Base else real_of_int DurationSamples))
      in ClampInt (TruncToInt ApproxTimeOfThisGrainSpawn) 0 (Block - 1))"

fun GrainLoop :: "Env \<Rightarrow> Inputs \<Rightarrow> real \<Rightarrow> int \<Rightarrow> nat \<Rightarrow> int \<Rightarrow> Operator \<Rightarrow> Operator" where
  "GrainLoop env inp Base G 0 i s = s"
| "GrainLoop env inp Base G (Suc n) i s =
     (let r = SpawnGrain env inp s;
          s1 = snd (snd r);
          f = GrainTriggerFrame (real_of_int (BlockSize s1)) Base G i
                (OutputGrainDurationSamples (fst (snd r))) (SamplesUntilNextGrain s1)
                (BlockSize s1)
      in GrainLoop env inp Base G n (i + 1)
           (if fst r then s1\<lparr>OnGrainTriggered := TriggerFrame f (OnGrainTriggered s1)\<rparr>
            else s1))"

subsection \<open>Envelope and mixing\<close>

definition EnvelopeScale :: "int \<Rightarrow> int \<Rightarrow> real \<Rightarrow> real \<Rightarrow> real \<Rightarrow> real \<Rightarrow> real" where
  "EnvelopeScale TotalSamples CurrentFrameInGrain AttackP DecayP AttackCurve DecayCurve =
     (let AttackSamples = CeilToInt (real_of_int TotalSamples * AttackP);
          DecaySamples = CeilToInt (real_of_int TotalSamples * DecayP)
      in if CurrentFrameInGrain < AttackSamples
         then Pow (if AttackSamples > 0
                   then real_of_int CurrentFrameInGrain / real_of_int AttackSamples else 1)
                  AttackCurve
         else if CurrentFrameInGrain \<ge> TotalSamples - DecaySamples
         then Pow (if DecaySamples > 0
                   then real_of_int (TotalSamples - CurrentFrameInGrain) / real_of_int DecaySamples
                   else 0)
                  DecayCurve
         else 1)"

definition EnvelopeGain :: "Inputs \<Rightarrow> FGrainVoice \<Rightarrow> int \<Rightarrow> real" where
  "EnvelopeGain inp v FrameIndex =
     Clamp (EnvelopeScale (TotalGrainSamples v) (SamplesPlayed v + FrameIndex)
              (AttackPercent inp) (ClampedDecayPercent inp)
              (AttackCurveFactor inp) (DecayCurveFactor inp)) 0 1"

definition MonoSample :: "FGrainVoice \<Rightarrow> Resampled \<Rightarrow> nat \<Rightarrow> real" where
  "MonoSample v res i =
     (if NumChannels v = 1 then ChannelSample res 0 i
      else if NumChannels v \<ge> 2 then (ChannelSample res 0 i + ChannelSample res 1 i) * (1 / 2)
      else 0)"

definition EnvelopedSample :: "Inputs \<Rightarrow> FGrainVoice \<Rightarrow> Resampled \<Rightarrow> nat \<Rightarrow> real" where
  "EnvelopedSample inp v res i =
     (MonoSample v res i * VolumeScale v) * EnvelopeGain inp v (int i)"

text \<open>The contents of \<^verbatim>\<open>EnvelopedMonoBuffer\<close> for a voice that renders \<open>n\<close> frames
  in this block. The refill loop around \<^verbatim>\<open>GenerateSourceAudio\<close> and the resampler are the
  external pipeline; \<open>ProcessAndConsumeAudio\<close> stands for their result.\<close>

definition EnvelopedMonoBuffer :: "Env \<Rightarrow> Inputs \<Rightarrow> nat \<Rightarrow> FGrainVoice \<Rightarrow> int \<Rightarrow> real list" where
  "EnvelopedMonoBuffer env inp idx v n =
     (if (bIsReversed v \<or> Reader v \<noteq> None) \<and> Resampler v \<noteq> None \<and> TotalGrainSamples v > 0
      then
        let res = ProcessAndConsumeAudio env idx v n
        in map (\<lambda>i. if int i < FramesProduced res then EnvelopedSample inp v res i else 0)
             [0..<nat n]
      else replicate (nat n) 0)"

definition PanAngle :: "real \<Rightarrow> real" where
  "PanAngle Pan = (Pan + 1) * (1 / 2) * pi * (1 / 2)"

definition DeactivateVoice :: "FGrainVoice \<Rightarrow> FGrainVoice" where
  "DeactivateVoice v = v\<lparr>bIsActive := False, Reader := None, Resampler := None\<rparr>"

definition ProcessVoice ::
  "Env \<Rightarrow> Inputs \<Rightarrow> int \<Rightarrow> nat \<Rightarrow> FGrainVoice \<Rightarrow> real list \<times> real list
     \<Rightarrow> FGrainVoice \<times> real list \<times> real list" where
  "ProcessVoice env inp Block idx v out =
     (if bIsActive v then
        (let OutputFramesToProcessThisBlock = max 0 (min Block (SamplesRemaining v))
         in if OutputFramesToProcessThisBlock \<le> 0 then (DeactivateVoice v, out)
            else
              let MonoBuffer = EnvelopedMonoBuffer env inp idx v OutputFramesToProcessThisBlock;
                  l = ArrayMixIn MonoBuffer (fst out) (cos (PanAngle (PanPosition v)));
                  r = ArrayMixIn MonoBuffer (snd out) (sin (PanAngle (PanPosition v)));
                  v1 = v\<lparr>SamplesPlayed := SamplesPlayed v + OutputFramesToProcessThisBlock,
                         SamplesRemaining :=
                           SamplesRemaining v - OutputFramesToProcessThisBlock\<rparr>
              in (if SamplesRemaining v1 \<le> 0 then DeactivateVoice v1 else v1, l, r))
      else (v, out))"

fun ProcessVoices ::
  "Env \<Rightarrow> Inputs \<Rightarrow> int \<Rightarrow> nat \<Rightarrow> FGrainVoice list \<Rightarrow> real list \<times> real list
     \<Rightarrow> FGrainVoice list \<times> real list \<times> real list" where
  "ProcessVoices env inp Block idx [] out = ([], out)"
| "ProcessVoices env inp Block idx (v # vs) out =
     (let r = ProcessVoice env inp Block idx v out;
          rs = ProcessVoices env inp Block (Suc idx) vs (snd r)
      in (fst r # fst rs, snd rs))"

subsection \<open>Execute\<close>

text \<open>The loop over the frames of the play trigger: the flag is
  \<^verbatim>\<open>bTriggeredStopThisBlock\<close>.\<close>

fun PlayLoop :: "Env \<Rightarrow> Inputs \<Rightarrow> int list \<Rightarrow> bool \<times> Operator \<Rightarrow> bool \<times> Operator" where
  "PlayLoop env inp [] st = st"
| "PlayLoop env inp (Frame # fs) st =
     (let r = TryStartPlayback env inp Frame (snd st);
          s1 = snd r
      in if \<not> fst r
         then PlayLoop env inp fs
                (False, s1\<lparr>OnFinishedTrigger := TriggerFrame Frame (OnFinishedTrigger s1),
                            bIsPlaying := False\<rparr>)
         else PlayLoop env inp fs (False, s1))"

definition ZeroOutputs :: "Operator \<Rightarrow> Operator" where
  "ZeroOutputs s = s\<lparr>AudioOutputLeft := Zero (AudioOutputLeft s),
                      AudioOutputRight := Zero (AudioOutputRight s)\<rparr>"

text \<open>The statement sequence \<^verbatim>\<open>ResetVoices(); bIsPlaying = false;
  OnFinishedTrigger->TriggerFrame(0); AudioOutputLeft->Zero(); AudioOutputRight->Zero();
  return;\<close> of the three failure exits of the playing state.\<close>

definition StopNow :: "Operator \<Rightarrow> Operator" where
  "StopNow s =
     (let s1 = (ResetVoices s)\<lparr>bIsPlaying := False\<rparr>
      in ZeroOutputs (s1\<lparr>OnFinishedTrigger := TriggerFrame 0 (OnFinishedTrigger s1)\<rparr>))"

text \<open>The branch \<^verbatim>\<open>if (!bIsPlaying)\<close>.\<close>

definition StoppedBlock :: "Operator \<Rightarrow> Operator" where
  "StoppedBlock s =
     (let s1 = ZeroOutputs s
      in if CurrentWaveProxy s1 \<noteq> None \<or> CurrentNumChannels s1 > 0 \<or> ConvertDeinterleave s1
         then ClearWaveData (ResetVoices s1)
         else s1)"

text \<open>From the computation of the block parameters to the end of the grain loop: the
  output buffers are cleared unless the wave has just changed, the scheduler runs, and the
  grains that are due are spawned.\<close>

definition ScheduleAndSpawn :: "Env \<Rightarrow> Inputs \<Rightarrow> bool \<Rightarrow> Operator \<Rightarrow> Operator" where
  "ScheduleAndSpawn env inp bWaveJustChanged s =
     (let Base = BaseSamplesPerGrainInterval inp (SampleRate s);
          s1 = (if \<not> bWaveJustChanged
                then s\<lparr>AudioOutputLeft := Memset0 (BlockSize s) (AudioOutputLeft s),
                       AudioOutputRight := Memset0 (BlockSize s) (AudioOutputRight s)\<rparr>
                else s);
          ElapsedSamples = real_of_int (BlockSize s1);
          sched = ScheduleBlock (FRand env) Base (TimeJitterPercent inp) ElapsedSamples
                    (SamplesUntilNextGrain s1) (RandCount s1);
          GrainsToTriggerThisBlock = fst (snd sched);
          s2 = s1\<lparr>SamplesUntilNextGrain := fst sched, RandCount := snd (snd sched)\<rparr>
      in GrainLoop env inp Base GrainsToTriggerThisBlock (nat GrainsToTriggerThisBlock) 0 s2)"

text \<open>The rest of \<^verbatim>\<open>Execute\<close>: the loop over the voices.\<close>

definition RenderBlock :: "Env \<Rightarrow> Inputs \<Rightarrow> bool \<Rightarrow> Operator \<Rightarrow> Operator" where
  "RenderBlock env inp bWaveJustChanged s =
     (let s3 = ScheduleAndSpawn env inp bWaveJustChanged s;
          r = ProcessVoices env inp (BlockSize s3) 0 (GrainVoices s3)
                (AudioOutputLeft s3, AudioOutputRight s3)
      in s3\<lparr>GrainVoices := fst r, AudioOutputLeft := fst (snd r),
             AudioOutputRight := snd (snd r)\<rparr>)"

text \<open>The playing state, from the wave change check on.\<close>

definition CheckedRender :: "Env \<Rightarrow> Inputs \<Rightarrow> bool \<Rightarrow> Operator \<Rightarrow> Operator" where
  "CheckedRender env inp bWaveJustChanged s =
     (if CurrentNumChannels s \<le> 0 \<or> \<not> ConvertDeinterleave s
           \<or> CachedSoundWaveDuration s < MinGrainDurationSeconds
      then StopNow s
      else RenderBlock env inp bWaveJustChanged s)"

definition PlayingBlock :: "Env \<Rightarrow> Inputs \<Rightarrow> Operator \<Rightarrow> Operator" where
  "PlayingBlock env inp s =
     (case GetSoundWaveProxy (WaveAssetInput inp) of
        Some InputProxy \<Rightarrow>
          if CurrentWaveProxy s \<noteq> Some InputProxy
          then (let r = InitializeWaveData env InputProxy s
                in if \<not> fst r then StopNow (snd r) else CheckedRender env inp True (snd r))
          else CheckedRender env inp False s
      | None \<Rightarrow>
          if CurrentWaveProxy s \<noteq> None then StopNow s else CheckedRender env inp False s)"

text \<open>The trigger handling at the head of \<^verbatim>\<open>Execute\<close>, up to the test
  \<^verbatim>\<open>if (!bIsPlaying)\<close>.\<close>

definition HandleTriggers :: "Env \<Rightarrow> Inputs \<Rightarrow> Operator \<Rightarrow> Operator" where
  "HandleTriggers env inp s =
     (let s1 = s\<lparr>OnPlayTrigger := AdvanceBlock (OnPlayTrigger s),
                 OnFinishedTrigger := AdvanceBlock (OnFinishedTrigger s),
                 OnGrainTriggered := AdvanceBlock (OnGrainTriggered s)\<rparr>;
          bStop0 = (StopTrigger inp \<noteq> [] \<and> bIsPlaying s1);
          StopFrame = (if bStop0 then hd (StopTrigger inp) else - 1);
          r = PlayLoop env inp (PlayTrigger inp) (bStop0, s1);
          s2 = snd r
      in if fst r \<and> bIsPlaying s2
         then (let s3 = ResetVoices (s2\<lparr>bIsPlaying := False\<rparr>)
               in s3\<lparr>OnFinishedTrigger := TriggerFrame StopFrame (OnFinishedTrigger s3)\<rparr>)
         else s2)"

definition Execute :: "Env \<Rightarrow> Inputs \<Rightarrow> Operator \<Rightarrow> Operator" where
  "Execute env inp s =
     (if BlockSize s \<le> 0
      then (let s1 = ZeroOutputs s
            in if bIsPlaying s1
               then s1\<lparr>OnFinishedTrigger := TriggerFrame 0 (OnFinishedTrigger s1),
                       bIsPlaying := False\<rparr>
               else s1)
      else
        let s1 = HandleTriggers env inp s
        in if \<not> bIsPlaying s1 then StoppedBlock s1 else PlayingBlock env inp s1)"

subsection \<open>Reset and construction\<close>

definition Reset :: "Operator \<Rightarrow> Operator" where
  "Reset s =
     (ClearWaveData (ZeroOutputs (ResetVoices s)))\<lparr>
        SamplesUntilNextGrain := 0,
        OnPlayTrigger := [], OnFinishedTrigger := [], OnGrainTriggered := [],
        OutputGrainStartTimeRef := 0, OutputGrainDurationSecRef := 0,
        OutputGrainIsReversedRef := False, OutputGrainVolumeRef := 0,
        OutputGrainPitchRef := 0, OutputGrainPanRef := 0,
        bIsPlaying := False\<rparr>"

definition DefaultVoice :: FGrainVoice where
  "DefaultVoice = \<lparr>Reader = None, Resampler = None, bIsActive = False, NumChannels = 0,
     SamplesRemaining = 0, SamplesPlayed = 0, TotalGrainSamples = 0, PanPosition = 0,
     VolumeScale = 1, bIsReversed = False, FullGrainSegmentBuffer = [],
     FullGrainSegmentReadOffset = 0\<rparr>"

text \<open>The constructor, from the sample rate and the block length of the operator settings.
  The member \<^verbatim>\<open>CurrentNumChannels\<close> has no initialiser: its first value \<open>c0\<close> is
  arbitrary, and so is the position \<open>k0\<close> of the random number generator.\<close>

definition Construct :: "real \<Rightarrow> int \<Rightarrow> int \<Rightarrow> nat \<Rightarrow> Operator" where
  "Construct Rate NumFramesPerBlock c0 k0 =
     \<lparr>SampleRate = Rate,
      BlockSize = (if NumFramesPerBlock > 0 then NumFramesPerBlock else 256),
      bIsPlaying = False,
      SamplesUntilNextGrain = 0,
      GrainVoices = replicate (nat MaxGrainVoices) DefaultVoice,
      CurrentWaveProxy = None,
      CachedSoundWaveDuration = 0,
      CurrentNumChannels = c0,
      ConvertDeinterleave = False,
      OnPlayTrigger = [], OnFinishedTrigger = [], OnGrainTriggered = [],
      AudioOutputLeft = replicate (nat NumFramesPerBlock) 0,
      AudioOutputRight = replicate (nat NumFramesPerBlock) 0,
      OutputGrainStartTimeRef = 0, OutputGrainDurationSecRef = 0,
      OutputGrainIsReversedRef = False, OutputGrainVolumeRef = 0,
      OutputGrainPitchRef = 0, OutputGrainPanRef = 0,
      RandCount = k0\<rparr>"

text \<open>The states an operator can be in between two calls of the host.\<close>

inductive reachable :: "Operator \<Rightarrow> bool" where
  init: "reachable (Construct Rate NumFramesPerBlock c0 k0)"
| exec: "reachable s \<Longrightarrow> reachable (Execute env inp s)"
| reset: "reachable s \<Longrightarrow> reachable (Reset s)"

section \<open>The operator \<^verbatim>\<open>FGranularSynthOperator_Step8\<close>\<close>

text \<open>The Step8 operator has the member variables of \<open>Operator\<close> and a voice struct with a
  subset of the fields of \<open>FGrainVoice\<close>; its functions are modelled on the same records
  and leave the other fields alone. Modelled are \<^verbatim>\<open>ResetVoices\<close>,
  \<^verbatim>\<open>InitializeWaveData\<close>, \<^verbatim>\<open>TryStartPlayback\<close>, \<^verbatim>\<open>TriggerGrain\<close> and the head of
  \<^verbatim>\<open>Execute\<close> up to the return of the stopped state.\<close>

definition Step8_ResetVoice :: "FGrainVoice \<Rightarrow> FGrainVoice" where
  "Step8_ResetVoice v = v\<lparr>bIsActive := False, NumChannels := 0, SamplesRemaining := 0,
     SamplesPlayed := 0, TotalGrainSamples := 0, PanPosition := 0,
     Reader := None, Resampler := None\<rparr>"

definition Step8_ResetVoices :: "Operator \<Rightarrow> Operator" where
  "Step8_ResetVoices s = s\<lparr>GrainVoices := map Step8_ResetVoice (GrainVoices s)\<rparr>"

definition Step8_InitializeWaveData ::
  "Env \<Rightarrow> SoundWaveProxy \<Rightarrow> Operator \<Rightarrow> bool \<times> Operator" where
  "Step8_InitializeWaveData env InSoundWaveProxy s =
     (let s0 = s\<lparr>CurrentWaveProxy := Some InSoundWaveProxy\<rparr>
      in if CreateReader env InSoundWaveProxy DefaultReaderSettings then
           (let Duration = WaveDuration InSoundWaveProxy;
                Channels = WaveNumChannels InSoundWaveProxy
            in if Channels \<le> 0 \<or> Duration \<le> 0
               then (False, s0\<lparr>CurrentNumChannels := 0, CachedSoundWaveDuration := 0,
                                ConvertDeinterleave := False\<rparr>)
               else if \<not> CreateDeinterleave env Channels
               then (False, s0\<lparr>CurrentNumChannels := 0, CachedSoundWaveDuration := 0,
                                ConvertDeinterleave := False\<rparr>)
               else (True, s0\<lparr>CachedSoundWaveDuration := Duration,
                               CurrentNumChannels := Channels,
                               ConvertDeinterleave := True\<rparr>))
         else (False, s0))"

definition Step8_FinishIfWasPlaying :: "bool \<Rightarrow> int \<Rightarrow> Operator \<Rightarrow> Operator" where
  "Step8_FinishIfWasPlaying bWasPlayingBeforeAttempt InFrame s =
     (if bWasPlayingBeforeAttempt
      then s\<lparr>OnFinishedTrigger := TriggerFrame InFrame (OnFinishedTrigger s)\<rparr>
      else s)"

definition Step8_TryStartPlayback ::
  "Env \<Rightarrow> Inputs \<Rightarrow> int \<Rightarrow> Operator \<Rightarrow> bool \<times> Operator" where
  "Step8_TryStartPlayback env inp InFrame s =
     (let bWasPlayingBeforeAttempt = bIsPlaying s;
          s0 = s\<lparr>bIsPlaying := False\<rparr>
      in if \<not> IsSoundWaveValid (WaveAssetInput inp)
         then (False, ClearWaveData (Step8_ResetVoices
                        (Step8_FinishIfWasPlaying bWasPlayingBeforeAttempt InFrame s0)))
         else
           case GetSoundWaveProxy (WaveAssetInput inp) of
             None \<Rightarrow> (False, ClearWaveData (Step8_ResetVoices
                         (Step8_FinishIfWasPlaying bWasPlayingBeforeAttempt InFrame s0)))
           | Some SoundWaveProxy \<Rightarrow>
               let r = Step8_InitializeWaveData env SoundWaveProxy s0
               in if \<not> fst r
                  then (False, Step8_ResetVoices
                          (Step8_FinishIfWasPlaying bWasPlayingBeforeAttempt InFrame (snd r)))
                  else
                    let s1 = Step8_ResetVoices ((snd r)\<lparr>bIsPlaying := True\<rparr>)
                    in (True, s1\<lparr>SamplesUntilNextGrain := 0,
                                  OnPlayTrigger := TriggerFrame InFrame (OnPlayTrigger s1)\<rparr>))"

definition IsTriggeredInBlock :: "int list \<Rightarrow> bool" where
  "IsTriggeredInBlock t = (t \<noteq> [])"

fun Step8_PlayLoop :: "Env \<Rightarrow> Inputs \<Rightarrow> int list \<Rightarrow> bool \<times> Operator \<Rightarrow> bool \<times> Operator" where
  "Step8_PlayLoop env inp [] st = st"
| "Step8_PlayLoop env inp (Frame # fs) st =
     (let r = Step8_TryStartPlayback env inp Frame (snd st);
          s1 = snd r
      in if fst r then Step8_PlayLoop env inp fs (False, s1)
         else
           let s2 = s1\<lparr>bIsPlaying := False\<rparr>
           in Step8_PlayLoop env inp fs
                (fst st,
                 if \<not> IsTriggeredInBlock (OnFinishedTrigger s2)
                 then s2\<lparr>OnFinishedTrigger := TriggerFrame Frame (OnFinishedTrigger s2)\<rparr>
                 else s2))"

definition Step8_HandleTriggers :: "Env \<Rightarrow> Inputs \<Rightarrow> Operator \<Rightarrow> Operator" where
  "Step8_HandleTriggers env inp s =
     (let s1 = s\<lparr>OnPlayTrigger := AdvanceBlock (OnPlayTrigger s),
                 OnFinishedTrigger := AdvanceBlock (OnFinishedTrigger s),
                 OnGrainTriggered := AdvanceBlock (OnGrainTriggered s)\<rparr>;
          bStop0 = (StopTrigger inp \<noteq> [] \<and> bIsPlaying s1);
          StopFrame = (if bStop0 then hd (StopTrigger inp) else - 1);
          r = Step8_PlayLoop env inp (PlayTrigger inp) (bStop0, s1);
          s2 = snd r
      in if fst r \<and> bIsPlaying s2
         then (let s3 = Step8_ResetVoices (s2\<lparr>bIsPlaying := False\<rparr>)
               in s3\<lparr>OnFinishedTrigger := TriggerFrame StopFrame (OnFinishedTrigger s3)\<rparr>)
         else s2)"

definition Step8_StoppedBlock :: "Operator \<Rightarrow> Operator" where
  "Step8_StoppedBlock s =
     (let s1 = ZeroOutputs s
      in if CurrentWaveProxy s1 \<noteq> None \<or> CurrentNumChannels s1 > 0 \<or> ConvertDeinterleave s1
         then ClearWaveData (Step8_ResetVoices s1)
         else s1)"

text \<open>The head of \<^verbatim>\<open>Execute\<close>: \<open>Some\<close> is the state in which \<^verbatim>\<open>Execute\<close> returns from
  the stopped state, \<open>None\<close> says that it goes on into the playing state.\<close>

definition Step8_ExecuteHead :: "Env \<Rightarrow> Inputs \<Rightarrow> Operator \<Rightarrow> Operator option" where
  "Step8_ExecuteHead env inp s =
     (let s1 = Step8_HandleTriggers env inp s
      in if \<not> bIsPlaying s1 then Some (Step8_StoppedBlock s1) else None)"

definition Quantize :: "32 word \<Rightarrow> 32 word \<Rightarrow> 32 word" where
  "Quantize DecodeSize DecodeSizeQuantization =
     ((DecodeSize + DecodeSizeQuantization - 1) div DecodeSizeQuantization)
       * DecodeSizeQuantization"

definition Step8_GrainReaderSettings :: "int \<Rightarrow> real \<Rightarrow> ReaderSettings" where
  "Step8_GrainReaderSettings Block InStartTimeSeconds =
     \<lparr>StartTimeInSeconds = max 0 InStartTimeSeconds,
      bIsLooping = False,
      MaxDecodeSizeInFrames = Quantize (max (word_of_int (Block * 2)) 128) 128\<rparr>"

definition Step8_TriggerGrain ::
  "Env \<Rightarrow> SoundWaveProxy option \<Rightarrow> int \<Rightarrow> real \<Rightarrow> real \<Rightarrow> real \<Rightarrow> Operator \<Rightarrow> bool \<times> Operator"
  where
  "Step8_TriggerGrain env InSoundWaveProxy InGrainDurationSamples InStartTimeSeconds
     InFrameRatio InPanPosition s =
   (case InSoundWaveProxy of
      None \<Rightarrow> (False, s)
    | Some proxy \<Rightarrow>
        if InGrainDurationSamples \<le> 0 \<or> CurrentNumChannels s \<le> 0 then (False, s)
        else
          let VoiceIndex = FirstInactive (GrainVoices s) 0
          in if VoiceIndex = - 1 then (False, s)
             else
               let v = GrainVoices s ! nat VoiceIndex;
                   settings = Step8_GrainReaderSettings (BlockSize s) InStartTimeSeconds
               in if \<not> CreateReader env proxy settings
                  then (False, s\<lparr>GrainVoices :=
                                   (GrainVoices s)[nat VoiceIndex := v\<lparr>Reader := None\<rparr>]\<rparr>)
                  else (True, s\<lparr>GrainVoices := (GrainVoices s)[nat VoiceIndex :=
                                  v\<lparr>Reader := Some settings,
                                    NumChannels := CurrentNumChannels s,
                                    Resampler := Some InFrameRatio,
                                    bIsActive := True,
                                    SamplesRemaining := InGrainDurationSamples,
                                    SamplesPlayed := 0,
                                    TotalGrainSamples := InGrainDurationSamples,
                                    PanPosition := InPanPosition\<rparr>]\<rparr>))"

section \<open>The operator \<^verbatim>\<open>FGranularWavePlayerSmoothOperator\<close>\<close>

text \<open>Of this operator the development models three pieces, each as a function of the
  variables it reads: the opening of the reader in \<^verbatim>\<open>TriggerGrain\<close>, the envelope of
  one sample and the mixing of one voice in \<^verbatim>\<open>Execute\<close>.\<close>

text \<open>\<^verbatim>\<open>TriggerGrain\<close> from the clamping of the start time to the reader settings:
  \<open>None\<close> is the \<^verbatim>\<open>return false\<close> of a grain that does not fit.\<close>

definition Smooth_DurationInSeconds :: "real \<Rightarrow> int \<Rightarrow> real" where
  "Smooth_DurationInSeconds Rate InGrainDurationSamples =
     ToFloat (ToFloat (real_of_int InGrainDurationSamples) / Rate)"

definition Smooth_GrainReaderSettings ::
  "real \<Rightarrow> int \<Rightarrow> real \<Rightarrow> int \<Rightarrow> real \<Rightarrow> ReaderSettings option" where
  "Smooth_GrainReaderSettings Rate Block Duration InGrainDurationSamples InStartTimeSeconds =
     (let Start0 = max 0 InStartTimeSeconds;
          DurationInSeconds = Smooth_DurationInSeconds Rate InGrainDurationSamples;
          ConformedDecodeSize =
            Quantize (word_of_int (max InGrainDurationSamples (Block * 2))) 128
      in if ToFloat (Start0 + DurationInSeconds) > Duration
         then (let Start1 = max 0 (ToFloat (Duration - DurationInSeconds))
               in if Start1 \<le> 0 \<or> DurationInSeconds < MinGrainDurationSeconds then None
                  else Some \<lparr>StartTimeInSeconds = Start1, bIsLooping = False,
                             MaxDecodeSizeInFrames = ConformedDecodeSize\<rparr>)
         else Some \<lparr>StartTimeInSeconds = Start0, bIsLooping = False,
                    MaxDecodeSizeInFrames = ConformedDecodeSize\<rparr>)"

datatype EGrainWindowShape =
  Linear | Parabolic | Gaussian | Cosine | Hann | Blackman | Triangular | Rectangular

definition Smooth_AttackDecayRamp :: "int \<Rightarrow> int \<Rightarrow> int \<Rightarrow> int \<Rightarrow> real option" where
  "Smooth_AttackDecayRamp TotalSamples CurrentFrameInGrain AttackSamples DecaySamples =
     (if CurrentFrameInGrain < AttackSamples
      then Some (if AttackSamples > 0
                 then real_of_int CurrentFrameInGrain / real_of_int AttackSamples else 1)
      else if CurrentFrameInGrain \<ge> TotalSamples - DecaySamples
      then Some (if DecaySamples > 0
                 then real_of_int (TotalSamples - CurrentFrameInGrain) / real_of_int DecaySamples
                 else 0)
      else None)"

text \<open>The \<^verbatim>\<open>switch (GrainWindowShape)\<close>: the value of \<^verbatim>\<open>EnvelopeScale\<close> after it.
  \<open>Smoothing\<close> and \<open>Phase\<close> are the voice's \<^verbatim>\<open>SmoothingAmount\<close> and
  \<^verbatim>\<open>PhaseOffset\<close>.\<close>

definition Smooth_EnvelopeScale ::
  "EGrainWindowShape \<Rightarrow> int \<Rightarrow> real \<Rightarrow> real \<Rightarrow> real \<Rightarrow> real \<Rightarrow> real \<Rightarrow> int \<Rightarrow> int \<Rightarrow> real" where
  "Smooth_EnvelopeScale Shape XfadeCurveIndex AttackP DecayP GrainOverlap Smoothing Phase
     TotalSamples CurrentFrameInGrain =
     (let OverlapCompensation = min 1 (1 / GrainOverlap);
          AdaptiveAttackPercent = Clamp (AttackP * OverlapCompensation) (5 / 100) (95 / 100);
          AdaptiveDecayPercent = Clamp (DecayP * OverlapCompensation) (5 / 100) (95 / 100);
          AttackSamples = CeilToInt (real_of_int TotalSamples * AdaptiveAttackPercent);
          DecaySamples = CeilToInt (real_of_int TotalSamples * AdaptiveDecayPercent);
          ramp = Smooth_AttackDecayRamp TotalSamples CurrentFrameInGrain AttackSamples
                   DecaySamples;
          x = real_of_int CurrentFrameInGrain / real_of_int TotalSamples
      in case Shape of
           Linear \<Rightarrow> (case ramp of Some t \<Rightarrow> t | None \<Rightarrow> 1)
         | Parabolic \<Rightarrow> (case ramp of Some t \<Rightarrow> t * t | None \<Rightarrow> 1)
         | Gaussian \<Rightarrow>
             (let center = real_of_int TotalSamples * (1 / 2 + Smoothing * (1 / 10));
                  position = real_of_int CurrentFrameInGrain;
                  width = real_of_int TotalSamples * (1 / 4 + Smoothing * (1 / 10))
              in exp (- (1 / 2) * ((position - center) / width)\<^sup>2))
         | Cosine \<Rightarrow>
             (let phase = pi * real_of_int CurrentFrameInGrain / real_of_int TotalSamples
              in (1 / 2) * (1 - cos (2 * phase)))
         | Hann \<Rightarrow>
             (let phaseOffset = Phase * pi * (1 / 4);
                  phase = pi * x + phaseOffset
              in if XfadeCurveIndex = 0 then (1 / 2) * (1 - cos (2 * phase))
                 else if XfadeCurveIndex = 1 then sin phase * sin phase
                 else if XfadeCurveIndex = 2
                 then Pow ((1 / 2) * (1 - cos (2 * phase))) (7 / 10 + (6 / 10) * Smoothing)
                 else 1)
         | Blackman \<Rightarrow>
             42 / 100 - (1 / 2) * cos (2 * pi * x) + (8 / 100) * cos (4 * pi * x)
         | Triangular \<Rightarrow> 1 - \<bar>2 * x - 1\<bar>
         | Rectangular \<Rightarrow> 1)"

text \<open>The softening pass and the final clamp: the factor that multiplies the mono
  sample.\<close>

definition Smooth_EnvelopeGain ::
  "EGrainWindowShape \<Rightarrow> int \<Rightarrow> real \<Rightarrow> real \<Rightarrow> real \<Rightarrow> real \<Rightarrow> real \<Rightarrow> int \<Rightarrow> int \<Rightarrow> real" where
  "Smooth_EnvelopeGain Shape XfadeCurveIndex AttackP DecayP GrainOverlap Smoothing Phase
     TotalSamples CurrentFrameInGrain =
     (let e = Smooth_EnvelopeScale Shape XfadeCurveIndex AttackP DecayP GrainOverlap
                Smoothing Phase TotalSamples CurrentFrameInGrain;
          e1 = (if Smoothing > 0 \<and> e > 0 \<and> e < 1 then Pow e (1 - Smoothing * (3 / 10)) else e)
      in Clamp e1 0 1)"

definition Smooth_EnvelopedSample ::
  "EGrainWindowShape \<Rightarrow> int \<Rightarrow> real \<Rightarrow> real \<Rightarrow> real \<Rightarrow> real \<Rightarrow> real \<Rightarrow> int \<Rightarrow> int \<Rightarrow> real
     \<Rightarrow> real" where
  "Smooth_EnvelopedSample Shape XfadeCurveIndex AttackP DecayP GrainOverlap Smoothing Phase
     TotalSamples CurrentFrameInGrain Mono =
     Mono * Smooth_EnvelopeGain Shape XfadeCurveIndex AttackP DecayP GrainOverlap Smoothing
              Phase TotalSamples CurrentFrameInGrain"

text \<open>The two \<^verbatim>\<open>ArrayMixIn\<close> calls of a voice with pan position \<open>Pan\<close> and volume scale
  \<open>Volume\<close>, on the enveloped mono frames \<open>MonoBuffer\<close> that the voice produced.\<close>

definition Smooth_MixVoice ::
  "real \<Rightarrow> real \<Rightarrow> real list \<Rightarrow> real list \<times> real list \<Rightarrow> real list \<times> real list" where
  "Smooth_MixVoice Pan Volume MonoBuffer out =
     (let LeftGain = cos (PanAngle Pan) * Volume;
          RightGain = sin (PanAngle Pan) * Volume
      in (ArrayMixIn MonoBuffer (fst out) LeftGain, ArrayMixIn MonoBuffer (snd out) RightGain))"

section \<open>Predicates used in the statements\<close>

text \<open>The conditions under which \<^verbatim>\<open>InitializeWaveData\<close> returns true (the lemma
  \<open>InitializeWaveData_ok\<close> below), and the three ways in which the validation of the wave
  asset at a play trigger fails: the asset is invalid, it has no proxy, or the wave data
  cannot be initialised.\<close>

definition WaveDataOk :: "Env \<Rightarrow> SoundWaveProxy \<Rightarrow> bool" where
  "WaveDataOk env p =
     (CreateReader env p DefaultReaderSettings \<and> 0 < WaveNumChannels p
      \<and> 0 < WaveDuration p
      \<and> CreateDeinterleave env (WaveNumChannels p))"

definition PlayValidationFails :: "Env \<Rightarrow> Inputs \<Rightarrow> bool" where
  "PlayValidationFails env inp =
     (if IsSoundWaveValid (WaveAssetInput inp)
      then (case GetSoundWaveProxy (WaveAssetInput inp) of
              None \<Rightarrow> True | Some p \<Rightarrow> \<not> WaveDataOk env p)
      else True)"

text \<open>The state that a failed \<^verbatim>\<open>TryStartPlayback\<close> leaves.\<close>

definition Stopped :: "Operator \<Rightarrow> Operator" where
  "Stopped s = ClearWaveData (ResetVoices (s\<lparr>bIsPlaying := False\<rparr>))"

section \<open>Example inputs\<close>

text \<open>A mono wave of one second, a host in which every reader and deinterleaver can be
  created, the default values of the input pins, and an operator that is playing that
  wave with a block length of four frames.\<close>

definition ExProxy :: SoundWaveProxy where
  "ExProxy = \<lparr>ProxyId = 1, NumFramesInWave = 48000, WaveSampleRate = 48000,
     WaveNumChannels = 1\<rparr>"

definition ExEnv :: Env where
  "ExEnv = \<lparr>FRand = (\<lambda>_. 1 / 2),
     CreateReader = (\<lambda>_ _. True),
     CreateDeinterleave = (\<lambda>_. True),
     PopAudio = (\<lambda>_ _ n. replicate (nat n) 0),
     ProcessAndConsumeAudio = (\<lambda>_ _ n. \<lparr>FramesProduced = n, ChannelSample = (\<lambda>_ _. 1)\<rparr>),
     DecodeSizeQuantizationInFrames = 128,
     DefaultMinDecodeSizeInFrames = 128\<rparr>"

definition ExInputs :: Inputs where
  "ExInputs = \<lparr>PlayTrigger = [], StopTrigger = [],
     WaveAssetInput = \<lparr>IsSoundWaveValid = True, GetSoundWaveProxy = Some ExProxy\<rparr>,
     GrainDurationMsInput = 100, DurationRandMsInput = 0, ActiveVoicesInput = 1,
     TimeJitterInput = 0, StartPointTimeInput = 0, StartPointRandMsInput = 0,
     ReverseChanceInput = 0, AttackTimePercentInput = 1 / 10,
     DecayTimePercentInput = 1 / 10, AttackCurveInput = 1, DecayCurveInput = 1,
     PitchShiftInput = 0, PitchRandInput = 0, PanInput = 0, PanRandInput = 0,
     VolumeRandInput = 0, WarmStartInput = False\<rparr>"

definition ExPlaying :: Operator where
  "ExPlaying = (Construct 48000 4 0 0)\<lparr>bIsPlaying := True,
     CurrentWaveProxy := Some ExProxy, CachedSoundWaveDuration := 1,
     CurrentNumChannels := 1, ConvertDeinterleave := True\<rparr>"

text \<open>An invalid wave asset, a block with a play trigger on it, a block with a stop
  trigger and a later play trigger on it, a block with a play trigger on the valid wave
  and a later stop trigger, a block with a stop trigger only, and a playing operator
  with one grain in flight and the audio of the previous block in its output buffers.\<close>

definition ExInvalidAsset :: WaveAsset where
  "ExInvalidAsset = \<lparr>IsSoundWaveValid = False, GetSoundWaveProxy = None\<rparr>"

definition ExFailedPlay :: Inputs where
  "ExFailedPlay = ExInputs\<lparr>PlayTrigger := [0], WaveAssetInput := ExInvalidAsset\<rparr>"

definition ExStopAndFailedPlay :: Inputs where
  "ExStopAndFailedPlay =
     ExInputs\<lparr>StopTrigger := [1], PlayTrigger := [3], WaveAssetInput := ExInvalidAsset\<rparr>"

definition ExPlayThenStop :: Inputs where
  "ExPlayThenStop = ExInputs\<lparr>PlayTrigger := [0], StopTrigger := [3]\<rparr>"

definition ExStop :: Inputs where
  "ExStop = ExInputs\<lparr>StopTrigger := [2]\<rparr>"

definition ExVoice :: FGrainVoice where
  "ExVoice = DefaultVoice\<lparr>Reader := Some (GrainReaderSettings ExEnv 0 False),
     Resampler := Some 1, bIsActive := True, NumChannels := 1, SamplesRemaining := 4796,
     SamplesPlayed := 4, TotalGrainSamples := 4800\<rparr>"

definition ExPlayingVoice :: Operator where
  "ExPlayingVoice = ExPlaying\<lparr>GrainVoices := ExVoice # replicate 31 DefaultVoice,
     AudioOutputLeft := [1, 1, 1, 1], AudioOutputRight := [1, 1, 1, 1]\<rparr>"

text \<open>The default inputs with grains of 125 ms and the start point 1/64 s before the end of
  the wave, and the same with every grain reversed. All these values are single-precision
  numbers.\<close>

definition ExLateStart :: Inputs where
  "ExLateStart = ExInputs\<lparr>StartPointTimeInput := 63 / 64, GrainDurationMsInput := 125\<rparr>"

definition ExReverse :: Inputs where
  "ExReverse = ExLateStart\<lparr>ReverseChanceInput := 100\<rparr>"

text \<open>A second wave, the default inputs with that wave bound, and a playing operator
  with no grain in flight, the next grain due in 1000 samples and the audio of the previous
  block in its output buffers.\<close>

definition ExProxy2 :: SoundWaveProxy where
  "ExProxy2 = \<lparr>ProxyId = 2, NumFramesInWave = 96000, WaveSampleRate = 48000,
     WaveNumChannels = 2\<rparr>"



section \<open>Properties\<close>

subsection \<open>Single-precision rounding\<close>

lemma Pow2_powr: "Pow2 e = 2 powr (real_of_int e)"
proof (cases "0 \<le> e")
  case True
  then show ?thesis by (simp add: Pow2_def powr_realpow[symmetric])
next
  case False
  then have n: "real (nat (- e)) = - real_of_int e"
    by simp
  have "(2::real) ^ nat (- e) = 2 powr (real (nat (- e)))"
    by (simp add: powr_realpow)
  then have "(2::real) ^ nat (- e) = 2 powr (- real_of_int e)"
    unfolding n .
  then show ?thesis using False by (simp add: Pow2_def powr_minus_divide)
qed

lemma Pow2_pos: "0 < Pow2 e"
  by (simp add: Pow2_powr)

lemma Pow2_mono: "a \<le> b \<Longrightarrow> Pow2 a \<le> Pow2 b"
  by (simp add: Pow2_powr)

lemma Pow2_le_iff: "Pow2 a \<le> Pow2 b \<longleftrightarrow> a \<le> b"
  by (simp add: Pow2_powr)

lemma Pow2_less_iff: "Pow2 a < Pow2 b \<longleftrightarrow> a < b"
  by (simp add: Pow2_powr)

lemma Pow2_add: "Pow2 (a + b) = Pow2 a * Pow2 b"
  by (simp add: Pow2_powr powr_add)

lemma Pow2_diff: "Pow2 (a - b) = Pow2 a / Pow2 b"
  by (simp add: Pow2_powr powr_diff)

lemma FloatExponentFrom_eq:
  "Pow2 e \<le> x \<Longrightarrow> x < Pow2 (e + 1) \<Longrightarrow> - 126 \<le> e \<Longrightarrow> e \<le> int n - 126
     \<Longrightarrow> FloatExponentFrom n x = e"
proof (induction n)
  case 0
  then show ?case by simp
next
  case (Suc n)
  show ?case
  proof (cases "Pow2 (int n - 125) \<le> x")
    case True
    then have "Pow2 (int n - 125) < Pow2 (e + 1)"
      using Suc.prems(2) by simp
    then have "int n - 125 < e + 1"
      by (simp add: Pow2_less_iff)
    then show ?thesis using True Suc.prems(4) by simp
  next
    case False
    then have "Pow2 e < Pow2 (int n - 125)"
      using Suc.prems(1) by simp
    then have "e < int n - 125"
      by (simp add: Pow2_less_iff)
    then show ?thesis using False Suc.IH Suc.prems by simp
  qed
qed

lemma FloatExponentFrom_small:
  "x < Pow2 (- 125) \<Longrightarrow> FloatExponentFrom n x = - 126"
proof (induction n)
  case 0
  then show ?case by simp
next
  case (Suc n)
  have "Pow2 (- 125) \<le> Pow2 (int n - 125)"
    by (rule Pow2_mono) simp
  then show ?case using Suc by simp
qed

lemma FloatExponentFrom_le:
  "Pow2 (- 126) \<le> x \<Longrightarrow> Pow2 (FloatExponentFrom n x) \<le> x"
  by (induction n) simp_all

lemma FloatExponentFrom_ge: "- 126 \<le> FloatExponentFrom n x"
  by (induction n) simp_all

lemma FloatExponent_eq:
  "Pow2 e \<le> \<bar>x\<bar> \<Longrightarrow> \<bar>x\<bar> < Pow2 (e + 1) \<Longrightarrow> - 126 \<le> e \<Longrightarrow> e \<le> 127
     \<Longrightarrow> FloatExponent x = e"
  unfolding FloatExponent_def by (rule FloatExponentFrom_eq) simp_all

lemma FloatExponent_small: "\<bar>x\<bar> < Pow2 (- 125) \<Longrightarrow> FloatExponent x = - 126"
  unfolding FloatExponent_def by (rule FloatExponentFrom_small)

lemma RoundHalfEven_error: "\<bar>real_of_int (RoundHalfEven y) - y\<bar> \<le> 1 / 2"
  unfolding RoundHalfEven_def Let_def by (auto; linarith)

lemma RoundHalfEven_int: "RoundHalfEven (real_of_int n) = n"
  by (simp add: RoundHalfEven_def)

lemma RoundHalfEven_nonneg: "0 \<le> y \<Longrightarrow> 0 \<le> RoundHalfEven y"
  unfolding RoundHalfEven_def Let_def by (auto simp add: zero_le_floor intro: add_nonneg_nonneg)

lemma RoundHalfEven_nonpos: "y \<le> 0 \<Longrightarrow> RoundHalfEven y \<le> 0"
proof -
  assume y: "y \<le> 0"
  have "real_of_int (RoundHalfEven y) \<le> y + 1 / 2"
    using RoundHalfEven_error[of y] by linarith
  then have "real_of_int (RoundHalfEven y) < 1" using y by linarith
  then show ?thesis by linarith
qed

lemma ToFloat_val:
  assumes "Pow2 e \<le> \<bar>x\<bar>" "\<bar>x\<bar> < Pow2 (e + 1)" "- 126 \<le> e" "e \<le> 127"
  shows "ToFloat x = real_of_int (RoundHalfEven (x / Pow2 (e - 23))) * Pow2 (e - 23)"
  by (simp add: ToFloat_def FloatExponent_eq[OF assms])

lemma ToFloat_exact:
  assumes "Pow2 e \<le> \<bar>x\<bar>" "\<bar>x\<bar> < Pow2 (e + 1)" "- 126 \<le> e" "e \<le> 127"
      and "x = real_of_int n * Pow2 (e - 23)"
  shows "ToFloat x = x"
proof -
  have "x / Pow2 (e - 23) = real_of_int n"
    using Pow2_pos[of "e - 23"] by (simp add: assms(5))
  then show ?thesis
    by (simp add: ToFloat_val[OF assms(1-4)] RoundHalfEven_int assms(5)[symmetric])
qed

lemma ToFloat_zero: "ToFloat 0 = 0"
  by (simp add: ToFloat_def RoundHalfEven_def)

lemma ToFloat_nonneg: "0 \<le> x \<Longrightarrow> 0 \<le> ToFloat x"
  unfolding ToFloat_def
  using Pow2_pos[of "FloatExponent x - 23"] RoundHalfEven_nonneg[of "x / Pow2 (FloatExponent x - 23)"]
  by simp

lemma ToFloat_nonpos: "x \<le> 0 \<Longrightarrow> ToFloat x \<le> 0"
  unfolding ToFloat_def
  using Pow2_pos[of "FloatExponent x - 23"] RoundHalfEven_nonpos[of "x / Pow2 (FloatExponent x - 23)"]
  by (simp add: divide_nonpos_pos mult_nonpos_nonneg)

lemma ToFloat_error_ulp: "\<bar>ToFloat x - x\<bar> \<le> Pow2 (FloatExponent x - 24)"
proof -
  let ?u = "Pow2 (FloatExponent x - 23)"
  have u: "0 < ?u" by (rule Pow2_pos)
  have "ToFloat x - x = (real_of_int (RoundHalfEven (x / ?u)) - x / ?u) * ?u"
    using u by (simp add: ToFloat_def algebra_simps)
  then have "\<bar>ToFloat x - x\<bar> = \<bar>real_of_int (RoundHalfEven (x / ?u)) - x / ?u\<bar> * ?u"
    using u by (simp add: abs_mult)
  also have "\<dots> \<le> 1 / 2 * ?u"
    using RoundHalfEven_error[of "x / ?u"] u by (intro mult_right_mono) simp_all
  also have "\<dots> = Pow2 (FloatExponent x - 24)"
    using Pow2_diff[of "FloatExponent x - 23" 1] by (simp add: Pow2_def)
  finally show ?thesis .
qed

lemma ToFloat_error:
  "\<bar>ToFloat x - x\<bar> \<le> max (\<bar>x\<bar> / 2 ^ 24) (Pow2 (- 150))"
proof (cases "Pow2 (- 126) \<le> \<bar>x\<bar>")
  case True
  have "Pow2 (FloatExponent x) \<le> \<bar>x\<bar>"
    unfolding FloatExponent_def by (rule FloatExponentFrom_le[OF True])
  moreover have "Pow2 (FloatExponent x - 24) = Pow2 (FloatExponent x) / 2 ^ 24"
    using Pow2_diff[of "FloatExponent x" 24] by (simp add: Pow2_def)
  ultimately have "Pow2 (FloatExponent x - 24) \<le> \<bar>x\<bar> / 2 ^ 24"
    by (simp add: divide_right_mono)
  then show ?thesis using ToFloat_error_ulp[of x] by simp
next
  case False
  have "Pow2 (- 126) \<le> Pow2 (- 125)" by (rule Pow2_mono) simp
  then have "FloatExponent x = - 126"
    using False by (intro FloatExponent_small) simp
  then show ?thesis using ToFloat_error_ulp[of x] by simp
qed

lemma ToInt32_range: "- 2147483648 \<le> n \<Longrightarrow> n \<le> 2147483647 \<Longrightarrow> ToInt32 n = n"
  by (simp add: ToInt32_def)

lemma ToInt32_le: "ToInt32 n \<le> 2147483647"
  by (simp add: ToInt32_def)

lemma ExProxy_fields: "WaveNumChannels ExProxy = 1" "WaveNumChannels ExProxy2 = 2"
  by (simp_all add: ExProxy_def ExProxy2_def)

lemma WaveDuration_ExProxy: "WaveDuration ExProxy = 1" "WaveDuration ExProxy2 = 2"
proof -
  have a: "ToFloat 48000 = 48000" "ToFloat 96000 = 96000"
    by (simp_all add: ToFloat_val[of 15] ToFloat_val[of 16] Pow2_def RoundHalfEven_def)
  have b: "ToFloat 1 = 1" "ToFloat 2 = 2"
    by (simp_all add: ToFloat_val[of 0] ToFloat_val[of 1] Pow2_def RoundHalfEven_def)
  show "WaveDuration ExProxy = 1" "WaveDuration ExProxy2 = 2"
    by (simp_all add: WaveDuration_def ExProxy_def ExProxy2_def a b)
qed


subsection \<open>The voice pool\<close>

lemma FirstInactive_props:
  "FirstInactive vs i = j \<Longrightarrow> j \<noteq> - 1 \<Longrightarrow>
     int i \<le> j \<and> nat j - i < length vs \<and> \<not> bIsActive (vs ! (nat j - i))
     \<and> (\<forall>m < nat j - i. bIsActive (vs ! m))"
proof (induction vs arbitrary: i)
  case Nil
  then show ?case by simp
next
  case (Cons v vs)
  show ?case
  proof (cases "bIsActive v")
    case False
    with Cons.prems show ?thesis by auto
  next
    case True
    with Cons.prems have rec: "FirstInactive vs (Suc i) = j" by simp
    from Cons.IH[OF rec Cons.prems(2)]
    have ih: "int (Suc i) \<le> j" "nat j - Suc i < length vs"
      "\<not> bIsActive (vs ! (nat j - Suc i))" "\<forall>m < nat j - Suc i. bIsActive (vs ! m)"
      by auto
    have eq: "nat j - i = Suc (nat j - Suc i)" using ih(1) by linarith
    show ?thesis
      using ih True unfolding eq
      by (auto simp: nth_Cons split: nat.splits)
  qed
qed

lemma FirstInactive_none:
  "(FirstInactive vs i = - 1) = (\<forall>v \<in> set vs. bIsActive v)"
proof (induction vs arbitrary: i)
  case Nil
  then show ?case by simp
next
  case (Cons v vs)
  have "FirstInactive vs (Suc i) = - 1 \<or> int (Suc i) \<le> FirstInactive vs (Suc i)"
    using FirstInactive_props[of vs "Suc i" "FirstInactive vs (Suc i)"] by blast
  then show ?case using Cons.IH[of "Suc i"] by auto
qed

lemma length_ResetVoices [simp]: "length (GrainVoices (ResetVoices s)) = length (GrainVoices s)"
  by (simp add: ResetVoices_def)

lemma GrainVoices_ClearWaveData [simp]: "GrainVoices (ClearWaveData s) = GrainVoices s"
  by (simp add: ClearWaveData_def)

lemma GrainVoices_ZeroOutputs [simp]: "GrainVoices (ZeroOutputs s) = GrainVoices s"
  by (simp add: ZeroOutputs_def)

lemma GrainVoices_InitializeWaveData [simp]:
  "GrainVoices (snd (InitializeWaveData env p s)) = GrainVoices s"
  by (simp add: InitializeWaveData_def Let_def)

lemma length_TriggerGrain [simp]:
  "length (GrainVoices (snd (TriggerGrain env p d t r pan vol rv n s))) = length (GrainVoices s)"
  by (simp add: TriggerGrain_def Let_def split: option.splits)

lemma length_SpawnGrain [simp]:
  "length (GrainVoices (snd (snd (SpawnGrain env inp s)))) = length (GrainVoices s)"
  by (simp add: SpawnGrain_def Let_def)

lemma length_WarmStartLoop [simp]:
  "length (GrainVoices (WarmStartLoop env inp f n s)) = length (GrainVoices s)"
  by (induction n arbitrary: s) (simp_all add: Let_def)

lemma length_GrainLoop [simp]:
  "length (GrainVoices (GrainLoop env inp Base G n i s)) = length (GrainVoices s)"
  by (induction n arbitrary: s i) (simp_all add: Let_def)

lemma length_TryStartPlayback [simp]:
  "length (GrainVoices (snd (TryStartPlayback env inp f s))) = length (GrainVoices s)"
  by (simp add: TryStartPlayback_def FailPlayback_def Let_def split: option.splits)

lemma length_PlayLoop [simp]:
  "length (GrainVoices (snd (PlayLoop env inp fs st))) = length (GrainVoices (snd st))"
  by (induction fs arbitrary: st) (simp_all add: Let_def)

lemma length_HandleTriggers [simp]:
  "length (GrainVoices (HandleTriggers env inp s)) = length (GrainVoices s)"
  by (simp add: HandleTriggers_def Let_def)

lemma length_StoppedBlock [simp]:
  "length (GrainVoices (StoppedBlock s)) = length (GrainVoices s)"
  by (simp add: StoppedBlock_def Let_def)

lemma length_StopNow [simp]:
  "length (GrainVoices (StopNow s)) = length (GrainVoices s)"
  by (simp add: StopNow_def Let_def)

lemma length_ProcessVoices [simp]:
  "length (fst (ProcessVoices env inp B i vs out)) = length vs"
  by (induction vs arbitrary: i out) (simp_all add: Let_def)

lemma length_ScheduleAndSpawn [simp]:
  "length (GrainVoices (ScheduleAndSpawn env inp c s)) = length (GrainVoices s)"
  by (simp add: ScheduleAndSpawn_def Let_def)

lemma length_RenderBlock [simp]:
  "length (GrainVoices (RenderBlock env inp c s)) = length (GrainVoices s)"
  by (simp add: RenderBlock_def Let_def)

lemma length_CheckedRender [simp]:
  "length (GrainVoices (CheckedRender env inp c s)) = length (GrainVoices s)"
  by (simp add: CheckedRender_def)

lemma length_PlayingBlock [simp]:
  "length (GrainVoices (PlayingBlock env inp s)) = length (GrainVoices s)"
  by (simp add: PlayingBlock_def Let_def split: option.splits)

lemma length_Execute [simp]:
  "length (GrainVoices (Execute env inp s)) = length (GrainVoices s)"
  by (simp add: Execute_def Let_def)

lemma length_Reset [simp]:
  "length (GrainVoices (Reset s)) = length (GrainVoices s)"
  by (simp add: Reset_def)

lemma reachable_length:
  "reachable s \<Longrightarrow> length (GrainVoices s) = nat MaxGrainVoices"
  by (induction rule: reachable.induct) (simp_all add: Construct_def)

lemma SetupVoice_inactive_or_ok:
  "\<not> bIsActive v \<Longrightarrow> \<not> fst (SetupVoice env proxy ch d t r pan vol rv n v)
     \<Longrightarrow> \<not> bIsActive (snd (SetupVoice env proxy ch d t r pan vol rv n v))"
  by (auto simp add: SetupVoice_def Let_def split: if_splits)

lemma SetupVoice_active:
  "fst (SetupVoice env proxy ch d t r pan vol rv n v)
     \<Longrightarrow> bIsActive (snd (SetupVoice env proxy ch d t r pan vol rv n v))"
  by (auto simp add: SetupVoice_def Let_def split: if_splits)

lemma SetupVoice_reversed:
  "SetupVoice env proxy ch d t r pan vol True n v = (ok, v') \<Longrightarrow>
   frames = IntDiv (int (length (PopAudio env proxy (GrainReaderSettings env t True) (n * ch)))) ch \<Longrightarrow>
   ok = (CreateReader env proxy (GrainReaderSettings env t True) \<and> frames > 0)
   \<and> Reader v' = None
   \<and> (ok \<longrightarrow> bIsActive v' \<and> SamplesPlayed v' = 0
          \<and> TotalGrainSamples v'
              = max 1 (min d (max 1 (CeilToInt (ToFloat (ToFloat (real_of_int frames) / r)))))
          \<and> SamplesRemaining v'
              = max 1 (min d (max 1 (CeilToInt (ToFloat (ToFloat (real_of_int frames) / r))))))
   \<and> (\<not> ok \<longrightarrow> bIsActive v' = bIsActive v)"
  by (auto simp add: SetupVoice_def Let_def split: if_splits)

text \<open>Claim C9. A reversed grain that passes the checks of \<^verbatim>\<open>TriggerGrain\<close> and finds
  the free slot \<open>j\<close> is committed exactly when its reader could be created and the read up
  front gave at least one frame; in either case the reader of the slot is released. A
  committed voice has total and remaining sample counts equal to the minimum of the
  requested output length and \<open>max 1 (ceil (frames / ratio))\<close>, hence never more than
  requested. The quotient is the one the code computes: the frame count cast to
  \<^verbatim>\<open>float\<close>, divided in single precision, and converted by \<^verbatim>\<open>FMath::CeilToInt\<close>.\<close>

theorem reversed_grain_realized_duration:
  assumes r: "r = TriggerGrain env (Some proxy) req start ratio pan vol True n s"
      and j: "j = nat (FirstInactive (GrainVoices s) 0)"
      and frames: "frames = IntDiv (int (length (PopAudio env proxy
                     (GrainReaderSettings env start True) (n * CurrentNumChannels s))))
                     (CurrentNumChannels s)"
      and pre: "0 < CurrentNumChannels s" "MinGrainDurationSeconds \<le> CachedSoundWaveDuration s"
               "0 < req" "0 < n"
      and slot: "FirstInactive (GrainVoices s) 0 \<noteq> - 1"
  shows "fst r = (CreateReader env proxy (GrainReaderSettings env start True) \<and> 0 < frames)
     \<and> bIsActive (GrainVoices (snd r) ! j) = fst r
     \<and> Reader (GrainVoices (snd r) ! j) = None
     \<and> (fst r \<longrightarrow>
           TotalGrainSamples (GrainVoices (snd r) ! j)
             = min req (max 1 (CeilToInt (ToFloat (ToFloat (real_of_int frames) / ratio))))
         \<and> SamplesRemaining (GrainVoices (snd r) ! j)
             = min req (max 1 (CeilToInt (ToFloat (ToFloat (real_of_int frames) / ratio))))
         \<and> SamplesRemaining (GrainVoices (snd r) ! j) \<le> req)"
proof -
  let ?vs = "GrainVoices s"
  from FirstInactive_props[of ?vs 0 "FirstInactive ?vs 0"] slot
  have jl: "j < length ?vs" and jin: "\<not> bIsActive (?vs ! j)"
    by (simp_all add: j)
  define sv where "sv = SetupVoice env proxy (CurrentNumChannels s) req start ratio pan vol True n (?vs ! j)"
  have req: "r = (fst sv, s\<lparr>GrainVoices := ?vs[j := snd sv]\<rparr>)"
    using pre slot by (simp add: r TriggerGrain_def Let_def sv_def j)
  have nth: "GrainVoices (snd r) ! j = snd sv"
    using jl by (simp add: req)
  have sv: "SetupVoice env proxy (CurrentNumChannels s) req start ratio pan vol True n (?vs ! j) = (fst sv, snd sv)"
    by (simp add: sv_def)
  note P = SetupVoice_reversed[OF sv frames]
  have m: "max 1 (min req (max 1 (CeilToInt (ToFloat (ToFloat (real_of_int frames) / ratio)))))
             = min req (max 1 (CeilToInt (ToFloat (ToFloat (real_of_int frames) / ratio))))"
    using pre(3) by simp
  show ?thesis
    using P jin m by (auto simp: req nth[unfolded req, simplified] jl)
qed

lemma ActiveVoiceCount_le: "ActiveVoiceCount vs \<le> length vs"
  by (simp add: ActiveVoiceCount_def)

lemma TriggerGrain_cases:
  "(TriggerGrain env p d t ratio pan vol rv n s = (False, s) \<and>
      (fst (TriggerGrain env p d t ratio pan vol rv n s) \<longrightarrow> False))
   \<or> (\<exists>proxy. p = Some proxy \<and> FirstInactive (GrainVoices s) 0 \<noteq> - 1 \<and>
        TriggerGrain env p d t ratio pan vol rv n s =
          (fst (SetupVoice env proxy (CurrentNumChannels s) d t ratio pan vol rv n
                  (GrainVoices s ! nat (FirstInactive (GrainVoices s) 0))),
           s\<lparr>GrainVoices := (GrainVoices s)[nat (FirstInactive (GrainVoices s) 0) :=
                snd (SetupVoice env proxy (CurrentNumChannels s) d t ratio pan vol rv n
                  (GrainVoices s ! nat (FirstInactive (GrainVoices s) 0)))]\<rparr>))"
  by (cases p) (simp_all add: TriggerGrain_def Let_def)

text \<open>Claim C1. Between two calls of the host the operator has exactly
  \<^verbatim>\<open>MaxGrainVoices\<close> voices, so at most that many are active. \<^verbatim>\<open>TriggerGrain\<close> keeps
  the length of the array, leaves every active voice as it is, fails without changing
  the operator when every voice is active, and a successful call activates the first
  inactive slot \<open>j\<close> and touches no other slot.\<close>

theorem voice_pool_bounded:
  assumes reach: "reachable s0"
      and r: "r = TriggerGrain env p d t ratio pan vol rv n s"
      and j: "j = nat (FirstInactive (GrainVoices s) 0)"
  shows "ActiveVoiceCount (GrainVoices s0) \<le> nat MaxGrainVoices
     \<and> length (GrainVoices s0) = nat MaxGrainVoices
     \<and> length (GrainVoices (snd r)) = length (GrainVoices s)
     \<and> (\<forall>i < length (GrainVoices s).
           bIsActive (GrainVoices s ! i) \<longrightarrow> GrainVoices (snd r) ! i = GrainVoices s ! i)
     \<and> ((\<forall>v \<in> set (GrainVoices s). bIsActive v) \<longrightarrow> \<not> fst r \<and> snd r = s)
     \<and> (fst r \<longrightarrow> j < length (GrainVoices s) \<and> \<not> bIsActive (GrainVoices s ! j)
           \<and> (\<forall>m < j. bIsActive (GrainVoices s ! m))
           \<and> bIsActive (GrainVoices (snd r) ! j)
           \<and> (\<forall>m. m \<noteq> j \<longrightarrow> GrainVoices (snd r) ! m = GrainVoices s ! m))"
proof -
  let ?vs = "GrainVoices s"
  have len0: "length (GrainVoices s0) = nat MaxGrainVoices"
    using reach by (rule reachable_length)
  have c0: "ActiveVoiceCount (GrainVoices s0) \<le> nat MaxGrainVoices"
    using ActiveVoiceCount_le[of "GrainVoices s0"] len0 by simp
  have len: "length (GrainVoices (snd r)) = length ?vs"
    by (simp add: r)
  have full: "(\<forall>v \<in> set ?vs. bIsActive v) \<longrightarrow> \<not> fst r \<and> snd r = s"
  proof
    assume "\<forall>v \<in> set ?vs. bIsActive v"
    then have "FirstInactive ?vs 0 = - 1" by (simp add: FirstInactive_none)
    then show "\<not> fst r \<and> snd r = s"
      by (cases p) (simp_all add: r TriggerGrain_def Let_def)
  qed
  from TriggerGrain_cases[of env p d t ratio pan vol rv n s]
  show ?thesis
  proof
    assume a: "TriggerGrain env p d t ratio pan vol rv n s = (False, s) \<and>
      (fst (TriggerGrain env p d t ratio pan vol rv n s) \<longrightarrow> False)"
    then have "snd r = s" "\<not> fst r" by (simp_all add: r)
    then show ?thesis using len0 c0 by simp
  next
    assume "\<exists>proxy. p = Some proxy \<and> FirstInactive ?vs 0 \<noteq> - 1 \<and>
        TriggerGrain env p d t ratio pan vol rv n s =
          (fst (SetupVoice env proxy (CurrentNumChannels s) d t ratio pan vol rv n
                  (?vs ! nat (FirstInactive ?vs 0))),
           s\<lparr>GrainVoices := ?vs[nat (FirstInactive ?vs 0) :=
                snd (SetupVoice env proxy (CurrentNumChannels s) d t ratio pan vol rv n
                  (?vs ! nat (FirstInactive ?vs 0)))]\<rparr>)"
    then obtain proxy where slot: "FirstInactive ?vs 0 \<noteq> - 1"
      and eq: "r = (fst (SetupVoice env proxy (CurrentNumChannels s) d t ratio pan vol rv n (?vs ! j)),
                    s\<lparr>GrainVoices := ?vs[j := snd (SetupVoice env proxy (CurrentNumChannels s) d t ratio pan vol rv n (?vs ! j))]\<rparr>)"
      by (auto simp: r j)
    from FirstInactive_props[of ?vs 0 "FirstInactive ?vs 0"] slot
    have jl: "j < length ?vs" and jin: "\<not> bIsActive (?vs ! j)"
      and before: "\<forall>m < j. bIsActive (?vs ! m)"
      by (simp_all add: j)
    have keep: "\<forall>i < length ?vs. bIsActive (?vs ! i) \<longrightarrow> GrainVoices (snd r) ! i = ?vs ! i"
    proof (intro allI impI)
      fix i assume "i < length ?vs" and ai: "bIsActive (?vs ! i)"
      then have "i \<noteq> j" using jin by auto
      then show "GrainVoices (snd r) ! i = ?vs ! i" by (simp add: eq)
    qed
    have others: "\<forall>m. m \<noteq> j \<longrightarrow> GrainVoices (snd r) ! m = ?vs ! m"
      by (simp add: eq)
    have act: "fst r \<longrightarrow> bIsActive (GrainVoices (snd r) ! j)"
      using jl SetupVoice_active[of env proxy "CurrentNumChannels s" d t ratio pan vol rv n "?vs ! j"]
      by (simp add: eq)
    show ?thesis
      using len0 c0 len keep full jl jin before act others by blast
  qed
qed

lemma ExPlaying_voices: "GrainVoices ExPlaying = replicate 32 DefaultVoice"
  by (simp add: ExPlaying_def Construct_def MaxGrainVoices_def)

lemma FirstInactive_replicate_default:
  "0 < n \<Longrightarrow> FirstInactive (replicate n DefaultVoice) i = int i"
  by (cases n) (simp_all add: DefaultVoice_def)

lemma quotient_seven_frames:
  "ToFloat 7 = 7"
  "CeilToInt (ToFloat (117440512 / 11744051)) = 10"
  "ToFloat (7 / 10) = 11744051 / 16777216"
  "\<lceil>7 / (11744051 / 16777216 :: real)\<rceil> = 11"
proof -
  show "ToFloat 7 = 7"
    by (simp add: ToFloat_val[of 2] Pow2_def RoundHalfEven_def)
  show "CeilToInt (ToFloat (117440512 / 11744051)) = 10"
    by (simp add: ToFloat_val[of 3] Pow2_def RoundHalfEven_def CeilToInt_def ToInt32_def)
  show "ToFloat (7 / 10) = 11744051 / 16777216"
    by (simp add: ToFloat_val[of "- 1"] Pow2_def RoundHalfEven_def)
  show "\<lceil>7 / (11744051 / 16777216 :: real)\<rceil> = 11"
    by (simp add: ceiling_eq_iff)
qed

text \<open>Claim C9 on the playing example: seven source frames at the frame ratio \<^verbatim>\<open>0.7f\<close>
  (\<open>11744051 / 2^24\<close>) give ten output samples, although 100 were requested: the quotient
  is a little above 10 and is rounded to 10 by the division.\<close>

theorem reversed_grain_realized_duration_witness:
  "fst (TriggerGrain ExEnv (Some ExProxy) 100 0 (11744051 / 16777216) 0 1 True 7 ExPlaying)
   \<and> TotalGrainSamples (GrainVoices (snd (TriggerGrain ExEnv (Some ExProxy) 100 0
         (11744051 / 16777216) 0 1 True 7 ExPlaying)) ! 0) = 10
   \<and> SamplesRemaining (GrainVoices (snd (TriggerGrain ExEnv (Some ExProxy) 100 0
         (11744051 / 16777216) 0 1 True 7 ExPlaying)) ! 0) = 10"
proof -
  have fi: "FirstInactive (GrainVoices ExPlaying) 0 = 0"
    by (simp add: ExPlaying_voices FirstInactive_replicate_default)
  have h1: "0 < CurrentNumChannels ExPlaying"
    and h2: "MinGrainDurationSeconds \<le> CachedSoundWaveDuration ExPlaying"
    by (simp_all add: ExPlaying_def MinGrainDurationSeconds_def)
  have h5: "FirstInactive (GrainVoices ExPlaying) 0 \<noteq> - 1"
    by (simp add: fi)
  have fr: "IntDiv (int (length (PopAudio ExEnv ExProxy (GrainReaderSettings ExEnv 0 True)
              (7 * CurrentNumChannels ExPlaying)))) (CurrentNumChannels ExPlaying) = 7"
    by (simp add: ExEnv_def ExPlaying_def IntDiv_def)
  have cr: "CreateReader ExEnv ExProxy (GrainReaderSettings ExEnv 0 True)"
    by (simp add: ExEnv_def)
  from reversed_grain_realized_duration[OF refl refl refl h1 h2 _ _ h5,
      of 100 7 ExEnv ExProxy 0 "11744051 / 16777216" 0 1]
  show ?thesis
    by (simp add: fr cr fi quotient_seven_frames(1,2))
qed

text \<open>Claim C1 at a freshly constructed operator and a call on the playing example.\<close>

theorem voice_pool_bounded_witness:
  "ActiveVoiceCount (GrainVoices (Construct 48000 512 0 0)) \<le> nat MaxGrainVoices
   \<and> length (GrainVoices (snd (TriggerGrain ExEnv (Some ExProxy) 100 0 1 0 1 False 0 ExPlaying)))
       = length (GrainVoices ExPlaying)"
  using voice_pool_bounded[OF reachable.init[of 48000 512 0 0] refl refl,
      of ExEnv "Some ExProxy" 100 0 1 0 1 False 0 ExPlaying]
  by simp

subsection \<open>Play and stop triggers\<close>

lemma InitializeWaveData_ok: "fst (InitializeWaveData env p s) = WaveDataOk env p"
  by (auto simp: InitializeWaveData_def WaveDataOk_def Let_def)

lemma InitializeWaveData_fail:
  "\<not> WaveDataOk env p \<Longrightarrow> InitializeWaveData env p s = (False, ClearWaveData s)"
  by (auto simp: InitializeWaveData_def WaveDataOk_def Let_def)

lemma ResetVoice_idem [simp]: "ResetVoice (ResetVoice v) = ResetVoice v"
  by (simp add: ResetVoice_def)

lemma ResetVoices_idem [simp]: "ResetVoices (ResetVoices s) = ResetVoices s"
  by (simp add: ResetVoices_def)

lemma Stopped_idem [simp]: "Stopped (Stopped s) = Stopped s"
  by (simp add: Stopped_def ClearWaveData_def ResetVoices_def)

lemma TryStartPlayback_fail:
  "PlayValidationFails env inp \<Longrightarrow> TryStartPlayback env inp f s = (False, Stopped s)"
  by (auto simp: TryStartPlayback_def PlayValidationFails_def FailPlayback_def Let_def
        InitializeWaveData_fail Stopped_def ClearWaveData_def ResetVoices_def
      split: option.splits if_splits)

lemma PlayLoop_fail:
  "PlayValidationFails env inp \<Longrightarrow> fs \<noteq> [] \<Longrightarrow>
   PlayLoop env inp fs (b, s) =
     (False, (Stopped s)\<lparr>OnFinishedTrigger := OnFinishedTrigger s @ fs\<rparr>)"
proof (induction fs arbitrary: b s)
  case Nil
  then show ?case by simp
next
  case (Cons f fs)
  show ?case
  proof (cases "fs = []")
    case True
    then show ?thesis
      using Cons.prems(1)
      by (simp add: TryStartPlayback_fail TriggerFrame_def Let_def Stopped_def
            ClearWaveData_def ResetVoices_def)
  next
    case False
    then show ?thesis
      using Cons.prems(1) Cons.IH[OF Cons.prems(1) False]
      by (simp add: TryStartPlayback_fail TriggerFrame_def Let_def Stopped_def
            ClearWaveData_def ResetVoices_def)
  qed
qed

lemma ActiveVoiceCount_ResetVoice [simp]: "ActiveVoiceCount (map ResetVoice vs) = 0"
  by (induction vs) (simp_all add: ActiveVoiceCount_def ResetVoice_def)

lemma Zero_replicate: "Zero buf = replicate (length buf) 0"
  by (induction buf) (simp_all add: Zero_def)

lemma HandleTriggers_fail:
  assumes "PlayValidationFails env inp" "PlayTrigger inp \<noteq> []"
  shows "HandleTriggers env inp s =
           (Stopped s)\<lparr>OnPlayTrigger := [], OnFinishedTrigger := PlayTrigger inp,
                        OnGrainTriggered := []\<rparr>"
  using assms
  by (simp add: HandleTriggers_def Let_def PlayLoop_fail AdvanceBlock_def Stopped_def
        ClearWaveData_def ResetVoices_def)

lemma Execute_fail:
  assumes "PlayValidationFails env inp" "PlayTrigger inp \<noteq> []" "0 < BlockSize s"
  shows "Execute env inp s =
           ZeroOutputs ((Stopped s)\<lparr>OnPlayTrigger := [], OnFinishedTrigger := PlayTrigger inp,
                        OnGrainTriggered := []\<rparr>)"
  using assms
  by (simp add: Execute_def Let_def HandleTriggers_fail StoppedBlock_def Stopped_def
        ClearWaveData_def ResetVoices_def ZeroOutputs_def)

lemma HandleTriggers_stop:
  assumes "PlayTrigger inp = []" "StopTrigger inp \<noteq> []" "bIsPlaying s"
  shows "HandleTriggers env inp s =
           (ResetVoices s)\<lparr>bIsPlaying := False, OnPlayTrigger := [],
              OnFinishedTrigger := [hd (StopTrigger inp)], OnGrainTriggered := []\<rparr>"
  using assms
  by (simp add: HandleTriggers_def Let_def AdvanceBlock_def TriggerFrame_def ResetVoices_def)

lemma Execute_stop_proj:
  assumes "PlayTrigger inp = []" "StopTrigger inp \<noteq> []" "bIsPlaying s" "0 < BlockSize s"
  shows "\<not> bIsPlaying (Execute env inp s)"
    and "GrainVoices (Execute env inp s) = map ResetVoice (GrainVoices s)"
    and "AudioOutputLeft (Execute env inp s) = Zero (AudioOutputLeft s)"
    and "AudioOutputRight (Execute env inp s) = Zero (AudioOutputRight s)"
    and "OnFinishedTrigger (Execute env inp s) = [hd (StopTrigger inp)]"
    and "OnPlayTrigger (Execute env inp s) = []"
  using assms
  by (simp_all add: Execute_def Let_def HandleTriggers_stop StoppedBlock_def
        ClearWaveData_def ResetVoices_def ZeroOutputs_def)

lemma Execute_fail_proj:
  assumes "PlayValidationFails env inp" "PlayTrigger inp \<noteq> []" "0 < BlockSize s"
  shows "\<not> bIsPlaying (Execute env inp s)"
    and "GrainVoices (Execute env inp s) = map ResetVoice (GrainVoices s)"
    and "AudioOutputLeft (Execute env inp s) = Zero (AudioOutputLeft s)"
    and "AudioOutputRight (Execute env inp s) = Zero (AudioOutputRight s)"
    and "OnFinishedTrigger (Execute env inp s) = PlayTrigger inp"
    and "OnPlayTrigger (Execute env inp s) = []"
  using assms
  by (simp_all add: Execute_fail Stopped_def ClearWaveData_def ResetVoices_def ZeroOutputs_def)

lemma ResetVoice_fields:
  "v \<in> set (map ResetVoice vs) \<Longrightarrow>
     \<not> bIsActive v \<and> SamplesRemaining v = 0 \<and> Reader v = None \<and> Resampler v = None"
  by (auto simp: ResetVoice_def)

lemma Step8_InitializeWaveData_ok:
  "fst (Step8_InitializeWaveData env p s) = WaveDataOk env p"
  by (auto simp: Step8_InitializeWaveData_def WaveDataOk_def Let_def)

lemma Step8_InitializeWaveData_proj:
  "bIsPlaying (snd (Step8_InitializeWaveData env p s)) = bIsPlaying s"
  "GrainVoices (snd (Step8_InitializeWaveData env p s)) = GrainVoices s"
  "OnFinishedTrigger (snd (Step8_InitializeWaveData env p s)) = OnFinishedTrigger s"
  "OnPlayTrigger (snd (Step8_InitializeWaveData env p s)) = OnPlayTrigger s"
  "AudioOutputLeft (snd (Step8_InitializeWaveData env p s)) = AudioOutputLeft s"
  "AudioOutputRight (snd (Step8_InitializeWaveData env p s)) = AudioOutputRight s"
  by (simp_all add: Step8_InitializeWaveData_def Let_def)

lemma Step8_ResetVoice_idem [simp]: "Step8_ResetVoice (Step8_ResetVoice v) = Step8_ResetVoice v"
  by (simp add: Step8_ResetVoice_def)

lemma ActiveVoiceCount_Step8_ResetVoice [simp]:
  "ActiveVoiceCount (map Step8_ResetVoice vs) = 0"
  by (induction vs) (simp_all add: ActiveVoiceCount_def Step8_ResetVoice_def)

lemma Step8_TryStartPlayback_fail:
  assumes "PlayValidationFails env inp"
  shows "\<not> fst (Step8_TryStartPlayback env inp f s)"
    and "\<not> bIsPlaying (snd (Step8_TryStartPlayback env inp f s))"
    and "GrainVoices (snd (Step8_TryStartPlayback env inp f s))
           = map Step8_ResetVoice (GrainVoices s)"
    and "OnFinishedTrigger (snd (Step8_TryStartPlayback env inp f s))
           = (if bIsPlaying s then OnFinishedTrigger s @ [f] else OnFinishedTrigger s)"
    and "OnPlayTrigger (snd (Step8_TryStartPlayback env inp f s)) = OnPlayTrigger s"
    and "AudioOutputLeft (snd (Step8_TryStartPlayback env inp f s)) = AudioOutputLeft s"
    and "AudioOutputRight (snd (Step8_TryStartPlayback env inp f s)) = AudioOutputRight s"
  using assms
  by (auto simp: Step8_TryStartPlayback_def PlayValidationFails_def Let_def
        Step8_InitializeWaveData_ok Step8_InitializeWaveData_proj
        Step8_FinishIfWasPlaying_def Step8_ResetVoices_def ClearWaveData_def TriggerFrame_def
      split: option.splits if_splits)

lemma Step8_PlayLoop_fail:
  assumes fail: "PlayValidationFails env inp"
  shows "fs \<noteq> [] \<Longrightarrow>
     fst (Step8_PlayLoop env inp fs (b, s)) = b
   \<and> \<not> bIsPlaying (snd (Step8_PlayLoop env inp fs (b, s)))
   \<and> GrainVoices (snd (Step8_PlayLoop env inp fs (b, s))) = map Step8_ResetVoice (GrainVoices s)
   \<and> OnFinishedTrigger (snd (Step8_PlayLoop env inp fs (b, s)))
        = (if bIsPlaying s \<or> OnFinishedTrigger s = [] then OnFinishedTrigger s @ [hd fs]
           else OnFinishedTrigger s)
   \<and> OnPlayTrigger (snd (Step8_PlayLoop env inp fs (b, s))) = OnPlayTrigger s
   \<and> AudioOutputLeft (snd (Step8_PlayLoop env inp fs (b, s))) = AudioOutputLeft s
   \<and> AudioOutputRight (snd (Step8_PlayLoop env inp fs (b, s))) = AudioOutputRight s"
proof (induction fs arbitrary: b s)
  case Nil
  then show ?case by simp
next
  case (Cons f fs)
  note T = Step8_TryStartPlayback_fail[OF fail, of f s]
  define s1 where "s1 = snd (Step8_TryStartPlayback env inp f s)"
  define s2 where "s2 = s1\<lparr>bIsPlaying := False\<rparr>"
  define s3 where "s3 = (if \<not> IsTriggeredInBlock (OnFinishedTrigger s2)
                 then s2\<lparr>OnFinishedTrigger := TriggerFrame f (OnFinishedTrigger s2)\<rparr>
                 else s2)"
  have step: "Step8_PlayLoop env inp (f # fs) (b, s) = Step8_PlayLoop env inp fs (b, s3)"
    using T(1) by (simp add: Let_def s1_def s2_def s3_def)
  have p3: "\<not> bIsPlaying s3" "GrainVoices s3 = map Step8_ResetVoice (GrainVoices s)"
    "OnPlayTrigger s3 = OnPlayTrigger s" "AudioOutputLeft s3 = AudioOutputLeft s"
    "AudioOutputRight s3 = AudioOutputRight s"
    using T by (simp_all add: s3_def s2_def s1_def)
  have f3: "OnFinishedTrigger s3 =
      (if bIsPlaying s \<or> OnFinishedTrigger s = [] then OnFinishedTrigger s @ [f]
       else OnFinishedTrigger s)"
    using T by (auto simp: s3_def s2_def s1_def IsTriggeredInBlock_def TriggerFrame_def)
  have ne: "OnFinishedTrigger s3 \<noteq> []"
    using f3 by auto
  show ?case
  proof (cases "fs = []")
    case True
    then show ?thesis unfolding step using p3 f3 by simp
  next
    case False
    from Cons.IH[OF False, of b s3]
    show ?thesis
      unfolding step using p3 f3 ne by simp
  qed
qed

lemma Step8_ExecuteHead_fail:
  assumes fail: "PlayValidationFails env inp" and ne: "PlayTrigger inp \<noteq> []"
  shows "\<exists>s8. Step8_ExecuteHead env inp s = Some s8 \<and> \<not> bIsPlaying s8
     \<and> GrainVoices s8 = map Step8_ResetVoice (GrainVoices s)
     \<and> AudioOutputLeft s8 = Zero (AudioOutputLeft s)
     \<and> AudioOutputRight s8 = Zero (AudioOutputRight s)
     \<and> OnFinishedTrigger s8 = [hd (PlayTrigger inp)]
     \<and> OnPlayTrigger s8 = []"
proof -
  define s1 where "s1 = s\<lparr>OnPlayTrigger := AdvanceBlock (OnPlayTrigger s),
                 OnFinishedTrigger := AdvanceBlock (OnFinishedTrigger s),
                 OnGrainTriggered := AdvanceBlock (OnGrainTriggered s)\<rparr>"
  define b0 where "b0 = (StopTrigger inp \<noteq> [] \<and> bIsPlaying s1)"
  define s2 where "s2 = snd (Step8_PlayLoop env inp (PlayTrigger inp) (b0, s1))"
  note L = Step8_PlayLoop_fail[OF fail ne, of b0 s1, folded s2_def]
  have h: "Step8_HandleTriggers env inp s = s2"
    using L by (simp add: Step8_HandleTriggers_def Let_def s1_def[symmetric] b0_def[symmetric] s2_def[symmetric])
  have e: "Step8_ExecuteHead env inp s = Some (Step8_StoppedBlock s2)"
    using L by (simp add: Step8_ExecuteHead_def h)
  show ?thesis
    using L
    by (simp add: e Step8_StoppedBlock_def Let_def ZeroOutputs_def ClearWaveData_def
          Step8_ResetVoices_def s1_def AdvanceBlock_def)
qed

text \<open>Claim C3, amended. When the operator is playing, the block has a stop trigger and no
  play trigger of the block succeeds (there is none, or the validation of the wave asset
  fails), \<^verbatim>\<open>Execute\<close> leaves the operator stopped, every voice inactive with no samples
  remaining and no reader or resampler, and both output buffers zero. \<^verbatim>\<open>OnFinished\<close>
  is triggered at the first stop frame when the block has no play trigger, and at the
  frames of the failed play triggers otherwise.\<close>

theorem stop_trigger_halts_within_block:
  assumes "0 < BlockSize s" and "bIsPlaying s" and "StopTrigger inp \<noteq> []"
      and "PlayTrigger inp = [] \<or> PlayValidationFails env inp"
  shows "\<not> bIsPlaying (Execute env inp s)
     \<and> ActiveVoiceCount (GrainVoices (Execute env inp s)) = 0
     \<and> (\<forall>v \<in> set (GrainVoices (Execute env inp s)).
           \<not> bIsActive v \<and> SamplesRemaining v = 0 \<and> Reader v = None \<and> Resampler v = None)
     \<and> AudioOutputLeft (Execute env inp s) = replicate (length (AudioOutputLeft s)) 0
     \<and> AudioOutputRight (Execute env inp s) = replicate (length (AudioOutputRight s)) 0
     \<and> OnFinishedTrigger (Execute env inp s)
         = (if PlayTrigger inp = [] then [hd (StopTrigger inp)] else PlayTrigger inp)"
proof (cases "PlayTrigger inp = []")
  case True
  note P = Execute_stop_proj[OF True assms(3) assms(2) assms(1), of env]
  have B: "\<forall>v \<in> set (GrainVoices (Execute env inp s)).
             \<not> bIsActive v \<and> SamplesRemaining v = 0 \<and> Reader v = None \<and> Resampler v = None"
    unfolding P(2) using ResetVoice_fields[of _ "GrainVoices s"] by blast
  have A: "ActiveVoiceCount (GrainVoices (Execute env inp s)) = 0"
    unfolding P(2) by simp
  show ?thesis
    using True A B P(1) by (simp add: P(3,4,5) Zero_replicate)
next
  case False
  with assms(4) have fail: "PlayValidationFails env inp" by simp
  note P = Execute_fail_proj[OF fail False assms(1)]
  have B: "\<forall>v \<in> set (GrainVoices (Execute env inp s)).
             \<not> bIsActive v \<and> SamplesRemaining v = 0 \<and> Reader v = None \<and> Resampler v = None"
    unfolding P(2) using ResetVoice_fields[of _ "GrainVoices s"] by blast
  have A: "ActiveVoiceCount (GrainVoices (Execute env inp s)) = 0"
    unfolding P(2) by simp
  show ?thesis
    using False A B P(1) by (simp add: P(3,4,5) Zero_replicate)
qed

text \<open>Claim C3 on the operator with a grain in flight: a stop trigger at frame 2.\<close>

theorem stop_trigger_halts_within_block_witness:
  "\<not> bIsPlaying (Execute ExEnv ExStop ExPlayingVoice)
   \<and> bIsActive (hd (GrainVoices ExPlayingVoice))
   \<and> ActiveVoiceCount (GrainVoices (Execute ExEnv ExStop ExPlayingVoice)) = 0
   \<and> AudioOutputLeft (Execute ExEnv ExStop ExPlayingVoice) = [0, 0, 0, 0]
   \<and> AudioOutputRight (Execute ExEnv ExStop ExPlayingVoice) = [0, 0, 0, 0]
   \<and> OnFinishedTrigger (Execute ExEnv ExStop ExPlayingVoice) = [2]"
proof -
  have h: "0 < BlockSize ExPlayingVoice" "bIsPlaying ExPlayingVoice" "StopTrigger ExStop \<noteq> []"
    "PlayTrigger ExStop = [] \<or> PlayValidationFails ExEnv ExStop"
    by (simp_all add: ExPlayingVoice_def ExPlaying_def Construct_def ExStop_def ExInputs_def)
  have l: "AudioOutputLeft ExPlayingVoice = [1, 1, 1, 1]"
    "AudioOutputRight ExPlayingVoice = [1, 1, 1, 1]"
    "bIsActive (hd (GrainVoices ExPlayingVoice))"
    "PlayTrigger ExStop = []" "StopTrigger ExStop = [2]"
    by (simp_all add: ExPlayingVoice_def ExVoice_def ExStop_def ExInputs_def)
  from stop_trigger_halts_within_block[OF h]
  show ?thesis
    by (simp add: l numeral_eq_Suc)
qed

lemma GrainLoop_OnPlay:
  "OnPlayTrigger (GrainLoop env inp Base G n i s) = OnPlayTrigger s"
proof -
  have t: "OnPlayTrigger (snd (TriggerGrain env p d t r pan vol rv m s)) = OnPlayTrigger s"
    for p d t r pan vol rv m s
    by (simp add: TriggerGrain_def Let_def split: option.splits)
  have sp: "OnPlayTrigger (snd (snd (SpawnGrain env inp s))) = OnPlayTrigger s" for s
    by (simp add: SpawnGrain_def Let_def t)
  show ?thesis
    by (induction n arbitrary: s i) (simp_all add: Let_def sp)
qed

lemma TriggerGrain_control:
  "bIsPlaying (snd (TriggerGrain env p d t r pan vol rv n s)) = bIsPlaying s
   \<and> OnFinishedTrigger (snd (TriggerGrain env p d t r pan vol rv n s)) = OnFinishedTrigger s"
  by (simp add: TriggerGrain_def Let_def split: option.splits)

lemma SpawnGrain_control:
  "bIsPlaying (snd (snd (SpawnGrain env inp s))) = bIsPlaying s
   \<and> OnFinishedTrigger (snd (snd (SpawnGrain env inp s))) = OnFinishedTrigger s"
  by (simp add: SpawnGrain_def Let_def TriggerGrain_control)

lemma GrainLoop_control:
  "bIsPlaying (GrainLoop env inp Base G n i s) = bIsPlaying s
   \<and> OnFinishedTrigger (GrainLoop env inp Base G n i s) = OnFinishedTrigger s"
  by (induction n arbitrary: s i) (simp_all add: Let_def SpawnGrain_control)

lemma RenderBlock_control:
  "bIsPlaying (RenderBlock env inp c s) = bIsPlaying s
   \<and> OnFinishedTrigger (RenderBlock env inp c s) = OnFinishedTrigger s"
  by (simp add: RenderBlock_def ScheduleAndSpawn_def Let_def GrainLoop_control)

lemma ExPlayThenStop_triggers:
  "bIsPlaying (HandleTriggers ExEnv ExPlayThenStop ExPlaying)"
  "OnFinishedTrigger (HandleTriggers ExEnv ExPlayThenStop ExPlaying) = []"
  "OnPlayTrigger (HandleTriggers ExEnv ExPlayThenStop ExPlaying) = [0]"
  "CurrentWaveProxy (HandleTriggers ExEnv ExPlayThenStop ExPlaying) = Some ExProxy"
  "CurrentNumChannels (HandleTriggers ExEnv ExPlayThenStop ExPlaying) = 1"
  "ConvertDeinterleave (HandleTriggers ExEnv ExPlayThenStop ExPlaying)"
  "CachedSoundWaveDuration (HandleTriggers ExEnv ExPlayThenStop ExPlaying) = 1"
proof -
  have i: "PlayTrigger ExPlayThenStop = [0]" "StopTrigger ExPlayThenStop = [3]"
    "IsSoundWaveValid (WaveAssetInput ExPlayThenStop)"
    "GetSoundWaveProxy (WaveAssetInput ExPlayThenStop) = Some ExProxy"
    "\<not> WarmStartInput ExPlayThenStop"
    by (simp_all add: ExPlayThenStop_def ExInputs_def)
  have w: "InitializeWaveData ExEnv ExProxy s
             = (True, s\<lparr>CurrentWaveProxy := Some ExProxy, CachedSoundWaveDuration := 1,
                           CurrentNumChannels := 1, ConvertDeinterleave := True\<rparr>)" for s
    by (simp add: InitializeWaveData_def Let_def WaveDuration_ExProxy ExProxy_fields ExEnv_def)
  show "bIsPlaying (HandleTriggers ExEnv ExPlayThenStop ExPlaying)"
    "OnFinishedTrigger (HandleTriggers ExEnv ExPlayThenStop ExPlaying) = []"
    "OnPlayTrigger (HandleTriggers ExEnv ExPlayThenStop ExPlaying) = [0]"
    "CurrentWaveProxy (HandleTriggers ExEnv ExPlayThenStop ExPlaying) = Some ExProxy"
    "CurrentNumChannels (HandleTriggers ExEnv ExPlayThenStop ExPlaying) = 1"
    "ConvertDeinterleave (HandleTriggers ExEnv ExPlayThenStop ExPlaying)"
    "CachedSoundWaveDuration (HandleTriggers ExEnv ExPlayThenStop ExPlaying) = 1"
    by (simp_all add: HandleTriggers_def Let_def i TryStartPlayback_def w ResetVoices_def
          AdvanceBlock_def TriggerFrame_def)
qed

text \<open>Claim C3 as stated fails in two ways. While playing, a stop trigger at frame 1 and a
  play trigger at frame 3 on an invalid wave asset give \<^verbatim>\<open>OnFinished\<close> at frame 3 only, not
  at the stop frame. And a play trigger at frame 0 on the valid wave followed by a stop
  trigger at frame 3, after which no play trigger succeeds, leaves the operator playing
  with no \<^verbatim>\<open>OnFinished\<close> at all: the play triggers of a block are processed after its
  stop triggers whatever their frames, and a successful one cancels the stop.\<close>

theorem stop_frame_counterexample:
  "bIsPlaying ExPlaying \<and> StopTrigger ExStopAndFailedPlay = [1]
   \<and> OnFinishedTrigger (Execute ExEnv ExStopAndFailedPlay ExPlaying) = [3]
   \<and> PlayTrigger ExPlayThenStop = [0] \<and> StopTrigger ExPlayThenStop = [3]
   \<and> bIsPlaying (Execute ExEnv ExPlayThenStop ExPlaying)
   \<and> OnFinishedTrigger (Execute ExEnv ExPlayThenStop ExPlaying) = []
   \<and> OnPlayTrigger (Execute ExEnv ExPlayThenStop ExPlaying) = [0]"
proof -
  have f: "PlayValidationFails ExEnv ExStopAndFailedPlay"
    by (simp add: PlayValidationFails_def ExStopAndFailedPlay_def ExInvalidAsset_def)
  have n: "PlayTrigger ExStopAndFailedPlay = [3]" "StopTrigger ExStopAndFailedPlay = [1]"
    by (simp_all add: ExStopAndFailedPlay_def ExInputs_def)
  have b: "0 < BlockSize ExPlaying" "bIsPlaying ExPlaying"
    by (simp_all add: ExPlaying_def Construct_def)
  have first: "OnFinishedTrigger (Execute ExEnv ExStopAndFailedPlay ExPlaying) = [3]"
    using Execute_fail_proj(5)[OF f _ b(1)] n by simp
  have i: "PlayTrigger ExPlayThenStop = [0]" "StopTrigger ExPlayThenStop = [3]"
    "GetSoundWaveProxy (WaveAssetInput ExPlayThenStop) = Some ExProxy"
    by (simp_all add: ExPlayThenStop_def ExInputs_def)
  note H = ExPlayThenStop_triggers
  have e: "Execute ExEnv ExPlayThenStop ExPlaying
             = RenderBlock ExEnv ExPlayThenStop False (HandleTriggers ExEnv ExPlayThenStop ExPlaying)"
    using b(1) H(1)
    by (simp add: Execute_def Let_def PlayingBlock_def CheckedRender_def i(3) H(4,5,6,7)
          MinGrainDurationSeconds_def)
  have p: "OnPlayTrigger (RenderBlock env inp c s) = OnPlayTrigger s" for env inp c s
    by (simp add: RenderBlock_def ScheduleAndSpawn_def Let_def GrainLoop_OnPlay)
  show ?thesis
    using b(2) n(2) first i(1,2) H(1,2,3) by (simp add: e RenderBlock_control p)
qed

text \<open>Claim C4, amended. When a block has a play trigger and the validation of the wave
  asset fails, \<^verbatim>\<open>Execute\<close> leaves the operator stopped with no active voice and zero
  output, and \<^verbatim>\<open>OnFinished\<close> is triggered in that block whatever the state before: at
  every play frame by \<^verbatim>\<open>FGranularSynthOperator\<close>, at the first play frame by the
  Step8 operator.\<close>

theorem failed_play_stops_and_finishes:
  assumes "0 < BlockSize s" and "PlayTrigger inp \<noteq> []" and "PlayValidationFails env inp"
  shows "\<not> bIsPlaying (Execute env inp s)
     \<and> ActiveVoiceCount (GrainVoices (Execute env inp s)) = 0
     \<and> AudioOutputLeft (Execute env inp s) = replicate (length (AudioOutputLeft s)) 0
     \<and> AudioOutputRight (Execute env inp s) = replicate (length (AudioOutputRight s)) 0
     \<and> OnPlayTrigger (Execute env inp s) = []
     \<and> OnFinishedTrigger (Execute env inp s) = PlayTrigger inp
     \<and> (\<exists>s8. Step8_ExecuteHead env inp s = Some s8 \<and> \<not> bIsPlaying s8
           \<and> ActiveVoiceCount (GrainVoices s8) = 0
           \<and> AudioOutputLeft s8 = replicate (length (AudioOutputLeft s)) 0
           \<and> AudioOutputRight s8 = replicate (length (AudioOutputRight s)) 0
           \<and> OnPlayTrigger s8 = []
           \<and> OnFinishedTrigger s8 = [hd (PlayTrigger inp)])"
proof -
  note P = Execute_fail_proj[OF assms(3) assms(2) assms(1)]
  from Step8_ExecuteHead_fail[OF assms(3) assms(2), of s]
  obtain s8 where s8: "Step8_ExecuteHead env inp s = Some s8" "\<not> bIsPlaying s8"
     "GrainVoices s8 = map Step8_ResetVoice (GrainVoices s)"
     "AudioOutputLeft s8 = Zero (AudioOutputLeft s)"
     "AudioOutputRight s8 = Zero (AudioOutputRight s)"
     "OnFinishedTrigger s8 = [hd (PlayTrigger inp)]"
     "OnPlayTrigger s8 = []"
    by blast
  have A: "ActiveVoiceCount (GrainVoices (Execute env inp s)) = 0"
    unfolding P(2) by simp
  have A8: "ActiveVoiceCount (GrainVoices s8) = 0"
    unfolding s8(3) by simp
  show ?thesis
    using s8(1,2,4,5,6,7) A A8 P(1) by (simp add: P(3,4,5,6) Zero_replicate)
qed

text \<open>Claim C4 on the operator with a grain in flight: a play trigger at frame 0 on an
  invalid wave asset.\<close>

theorem failed_play_stops_and_finishes_witness:
  "\<not> bIsPlaying (Execute ExEnv ExFailedPlay ExPlayingVoice)
   \<and> ActiveVoiceCount (GrainVoices (Execute ExEnv ExFailedPlay ExPlayingVoice)) = 0
   \<and> AudioOutputLeft (Execute ExEnv ExFailedPlay ExPlayingVoice) = [0, 0, 0, 0]
   \<and> OnFinishedTrigger (Execute ExEnv ExFailedPlay ExPlayingVoice) = [0]"
proof -
  have h: "0 < BlockSize ExPlayingVoice" "PlayTrigger ExFailedPlay \<noteq> []"
    "PlayValidationFails ExEnv ExFailedPlay"
    by (simp_all add: ExPlayingVoice_def ExPlaying_def Construct_def ExFailedPlay_def
          ExInputs_def PlayValidationFails_def ExInvalidAsset_def)
  have l: "AudioOutputLeft ExPlayingVoice = [1, 1, 1, 1]" "PlayTrigger ExFailedPlay = [0]"
    by (simp_all add: ExPlayingVoice_def ExFailedPlay_def ExInputs_def)
  from failed_play_stops_and_finishes[OF h]
  show ?thesis
    by (simp add: l numeral_eq_Suc)
qed

text \<open>Claim C4 as stated fails: a freshly constructed operator, which has never played,
  triggers \<^verbatim>\<open>OnFinished\<close> when a play trigger meets an invalid wave asset.\<close>

theorem finished_without_session_counterexample:
  "\<not> bIsPlaying (Construct 48000 4 0 0)
   \<and> CurrentWaveProxy (Construct 48000 4 0 0) = None
   \<and> OnFinishedTrigger (Execute ExEnv ExFailedPlay (Construct 48000 4 0 0)) = [0]"
proof -
  have f: "PlayValidationFails ExEnv ExFailedPlay"
    by (simp add: PlayValidationFails_def ExFailedPlay_def ExInvalidAsset_def)
  have n: "PlayTrigger ExFailedPlay = [0]"
    by (simp add: ExFailedPlay_def ExInputs_def)
  have b: "0 < BlockSize (Construct 48000 4 0 0)"
    by (simp add: Construct_def)
  show ?thesis
    using Execute_fail_proj(5)[OF f _ b] n by (simp add: Construct_def)
qed

subsection \<open>Envelope and mixer\<close>

lemma Clamp_unit: "0 \<le> Clamp x 0 1 \<and> Clamp x 0 1 \<le> 1"
  by (simp add: Clamp_def)

text \<open>Claim C2. The factor by which a mono sample is multiplied is the envelope clamped to the
  unit interval, in \<^verbatim>\<open>FGranularSynthOperator\<close> for every attack and decay curve factor and in
  the Smooth operator for every window shape, crossfade curve and smoothing amount; the
  enveloped sample is the product of the sample and that factor, which therefore never
  amplifies it.\<close>

theorem envelope_gain_in_unit_interval:
  "0 \<le> EnvelopeGain inp v i \<and> EnvelopeGain inp v i \<le> 1
   \<and> EnvelopedSample inp v res k
        = (MonoSample v res k * VolumeScale v) * EnvelopeGain inp v (int k)
   \<and> \<bar>EnvelopedSample inp v res k\<bar> \<le> \<bar>MonoSample v res k * VolumeScale v\<bar>
   \<and> 0 \<le> Smooth_EnvelopeGain Shape Xfade AttackP DecayP Overlap Smoothing Phase Tot Cur
   \<and> Smooth_EnvelopeGain Shape Xfade AttackP DecayP Overlap Smoothing Phase Tot Cur \<le> 1
   \<and> Smooth_EnvelopedSample Shape Xfade AttackP DecayP Overlap Smoothing Phase Tot Cur m
        = m * Smooth_EnvelopeGain Shape Xfade AttackP DecayP Overlap Smoothing Phase Tot Cur
   \<and> \<bar>Smooth_EnvelopedSample Shape Xfade AttackP DecayP Overlap Smoothing Phase Tot Cur m\<bar>
        \<le> \<bar>m\<bar>"
proof -
  have g: "0 \<le> EnvelopeGain inp v i" "EnvelopeGain inp v i \<le> 1" for i
    using Clamp_unit by (simp_all add: EnvelopeGain_def)
  have sg: "0 \<le> Smooth_EnvelopeGain Shape Xfade AttackP DecayP Overlap Smoothing Phase Tot Cur"
    "Smooth_EnvelopeGain Shape Xfade AttackP DecayP Overlap Smoothing Phase Tot Cur \<le> 1"
    using Clamp_unit by (simp_all add: Smooth_EnvelopeGain_def Let_def)
  have a: "\<bar>x * y\<bar> \<le> \<bar>x\<bar>" if "0 \<le> y" "y \<le> 1" for x y :: real
  proof -
    have "\<bar>x * y\<bar> = \<bar>x\<bar> * y" using that by (simp add: abs_mult)
    also have "\<dots> \<le> \<bar>x\<bar> * 1" using that by (intro mult_left_mono) simp_all
    finally show ?thesis by simp
  qed
  show ?thesis
    using g sg a[OF g(1)[of "int k"] g(2)[of "int k"]] a[OF sg]
    by (simp add: EnvelopedSample_def Smooth_EnvelopedSample_def)
qed

text \<open>Claim C2 on the first frame of the example voice and on a Blackman window.\<close>

theorem envelope_gain_in_unit_interval_witness:
  "0 \<le> EnvelopeGain ExInputs ExVoice 0 \<and> EnvelopeGain ExInputs ExVoice 0 \<le> 1
   \<and> 0 \<le> Smooth_EnvelopeGain Blackman 0 (1 / 10) (1 / 10) 1 (1 / 2) 0 4800 7
   \<and> Smooth_EnvelopeGain Blackman 0 (1 / 10) (1 / 10) 1 (1 / 2) 0 4800 7 \<le> 1"
  using envelope_gain_in_unit_interval[of ExInputs ExVoice 0 "ProcessAndConsumeAudio ExEnv 0 ExVoice 4" 0 Blackman 0
      "1 / 10" "1 / 10" 1 "1 / 2" 0 4800 7 0]
  by simp

lemma ArrayMixIn_nth:
  "i < length xs \<Longrightarrow> i < length out \<Longrightarrow> ArrayMixIn xs out g ! i = out ! i + xs ! i * g"
  by (induction xs out g arbitrary: i rule: ArrayMixIn.induct) (auto simp: nth_Cons split: nat.splits)

lemma ArrayMixIn_nth_rest:
  "length xs \<le> i \<Longrightarrow> ArrayMixIn xs out g ! i = out ! i"
  by (induction xs out g arbitrary: i rule: ArrayMixIn.induct) (auto simp: nth_Cons split: nat.splits)

lemma ArrayMixIn_length [simp]:
  "length xs \<le> length out \<Longrightarrow> length (ArrayMixIn xs out g) = length out"
  by (induction xs out g rule: ArrayMixIn.induct) auto

lemma sqrt2_half_bounds: "7071 / 10000 < sqrt 2 / 2 \<and> sqrt 2 / 2 < 7072 / 10000"
proof -
  have "(14142 / 10000)\<^sup>2 < (2::real)" by (simp add: power2_eq_square)
  then have a: "14142 / 10000 < sqrt 2"
    by (rule real_less_rsqrt)
  have "(2::real) < (14144 / 10000)\<^sup>2" by (simp add: power2_eq_square)
  then have b: "sqrt 2 < 14144 / 10000"
    by (intro real_less_lsqrt) simp_all
  show ?thesis using a b by simp
qed

lemma PanAngle_center: "PanAngle 0 = pi / 4"
  by (simp add: PanAngle_def)

lemma EnvelopedMonoBuffer_nth:
  assumes "Resampler v \<noteq> None" "bIsReversed v \<or> Reader v \<noteq> None" "0 < TotalGrainSamples v"
      and "i < nat n" "int i < FramesProduced (ProcessAndConsumeAudio env idx v n)"
  shows "EnvelopedMonoBuffer env inp idx v n ! i
           = EnvelopedSample inp v (ProcessAndConsumeAudio env idx v n) i"
  using assms by (simp add: EnvelopedMonoBuffer_def Let_def)

lemma EnvelopedMonoBuffer_length [simp]:
  "length (EnvelopedMonoBuffer env inp idx v n) = nat n"
  by (simp add: EnvelopedMonoBuffer_def Let_def)

lemma ProcessVoice_mix:
  assumes "bIsActive v" "n = min Block (SamplesRemaining v)" "0 < n"
  shows "fst (snd (ProcessVoice env inp Block idx v (l, r)))
           = ArrayMixIn (EnvelopedMonoBuffer env inp idx v n) l (cos (PanAngle (PanPosition v)))"
    and "snd (snd (ProcessVoice env inp Block idx v (l, r)))
           = ArrayMixIn (EnvelopedMonoBuffer env inp idx v n) r (sin (PanAngle (PanPosition v)))"
proof -
  have m: "max 0 n = n" "\<not> n \<le> 0"
    using assms(3) by simp_all
  show "fst (snd (ProcessVoice env inp Block idx v (l, r)))
           = ArrayMixIn (EnvelopedMonoBuffer env inp idx v n) l (cos (PanAngle (PanPosition v)))"
    unfolding ProcessVoice_def Let_def assms(2)[symmetric]
    using assms(1) m by simp
  show "snd (snd (ProcessVoice env inp Block idx v (l, r)))
           = ArrayMixIn (EnvelopedMonoBuffer env inp idx v n) r (sin (PanAngle (PanPosition v)))"
    unfolding ProcessVoice_def Let_def assms(2)[symmetric]
    using assms(1) m by simp
qed

text \<open>Claim C8. The pan angle is \<open>(Pan + 1) / 2 * (pi / 2)\<close>. A frame \<open>i\<close> that an active voice of
  \<^verbatim>\<open>FGranularSynthOperator\<close> renders is added to the left output with the factor
  \<open>cos angle * VolumeScale\<close> and to the right output with \<open>sin angle * VolumeScale\<close> (the
  volume scale is multiplied into the sample before the envelope, the cosine and sine are
  the gains of \<^verbatim>\<open>ArrayMixIn\<close>); the Smooth operator adds a frame \<open>k\<close> with the gains
  \<open>cos angle * Volume\<close> and \<open>sin angle * Volume\<close>. At pan 0 both gains are
  \<open>sqrt 2 / 2\<close>, within 0.0001 of 0.7071.\<close>

theorem equal_power_panning:
  assumes "bIsActive v" and "n = min Block (SamplesRemaining v)" and "0 < n"
      and "Resampler v \<noteq> None" and "bIsReversed v \<or> Reader v \<noteq> None"
      and "0 < TotalGrainSamples v"
      and "res = ProcessAndConsumeAudio env idx v n" and "int i < FramesProduced res"
      and "i < nat n" and "i < length l" and "i < length r"
      and "k < length MonoBuffer" and "k < length l" and "k < length r"
  shows "PanAngle Pan = (Pan + 1) / 2 * (pi / 2)
     \<and> fst (snd (ProcessVoice env inp Block idx v (l, r))) ! i
         = l ! i + (MonoSample v res i * EnvelopeGain inp v (int i))
                     * (cos (PanAngle (PanPosition v)) * VolumeScale v)
     \<and> snd (snd (ProcessVoice env inp Block idx v (l, r))) ! i
         = r ! i + (MonoSample v res i * EnvelopeGain inp v (int i))
                     * (sin (PanAngle (PanPosition v)) * VolumeScale v)
     \<and> fst (Smooth_MixVoice Pan Volume MonoBuffer (l, r)) ! k
         = l ! k + MonoBuffer ! k * (cos (PanAngle Pan) * Volume)
     \<and> snd (Smooth_MixVoice Pan Volume MonoBuffer (l, r)) ! k
         = r ! k + MonoBuffer ! k * (sin (PanAngle Pan) * Volume)
     \<and> cos (PanAngle 0) = sqrt 2 / 2 \<and> sin (PanAngle 0) = sqrt 2 / 2
     \<and> \<bar>cos (PanAngle 0) - 7071 / 10000\<bar> < 1 / 10000"
proof -
  have m: "EnvelopedMonoBuffer env inp idx v n ! i = EnvelopedSample inp v res i"
    using assms(4-9) by (simp add: EnvelopedMonoBuffer_nth)
  have il: "i < length (EnvelopedMonoBuffer env inp idx v n)"
    using assms(9) by simp
  have L: "fst (snd (ProcessVoice env inp Block idx v (l, r))) ! i
         = l ! i + (MonoSample v res i * EnvelopeGain inp v (int i))
                     * (cos (PanAngle (PanPosition v)) * VolumeScale v)"
    unfolding ProcessVoice_mix(1)[OF assms(1-3)]
    using ArrayMixIn_nth[OF il assms(10)] by (simp add: m EnvelopedSample_def)
  have R: "snd (snd (ProcessVoice env inp Block idx v (l, r))) ! i
         = r ! i + (MonoSample v res i * EnvelopeGain inp v (int i))
                     * (sin (PanAngle (PanPosition v)) * VolumeScale v)"
    unfolding ProcessVoice_mix(2)[OF assms(1-3)]
    using ArrayMixIn_nth[OF il assms(11)] by (simp add: m EnvelopedSample_def)
  have SL: "fst (Smooth_MixVoice Pan Volume MonoBuffer (l, r)) ! k
         = l ! k + MonoBuffer ! k * (cos (PanAngle Pan) * Volume)"
    using ArrayMixIn_nth[OF assms(12) assms(13)] by (simp add: Smooth_MixVoice_def Let_def)
  have SR: "snd (Smooth_MixVoice Pan Volume MonoBuffer (l, r)) ! k
         = r ! k + MonoBuffer ! k * (sin (PanAngle Pan) * Volume)"
    using ArrayMixIn_nth[OF assms(12) assms(14)] by (simp add: Smooth_MixVoice_def Let_def)
  have c: "cos (PanAngle 0) = sqrt 2 / 2" "sin (PanAngle 0) = sqrt 2 / 2"
    by (simp_all add: PanAngle_center cos_45 sin_45)
  have b: "\<bar>cos (PanAngle 0) - 7071 / 10000\<bar> < 1 / 10000"
    using sqrt2_half_bounds unfolding c(1) by (simp add: abs_less_iff)
  have p: "PanAngle Pan = (Pan + 1) / 2 * (pi / 2)"
    by (simp add: PanAngle_def)
  show ?thesis
    using p L R SL SR c b by blast
qed

text \<open>Claim C8 on the example voice and on a voice of the Smooth operator at pan 0 and volume
  scale one half.\<close>

theorem equal_power_panning_witness:
  "fst (snd (ProcessVoice ExEnv ExInputs 4 0 ExVoice ([1, 1, 1, 1], [1, 1, 1, 1]))) ! 0
     = 1 + (MonoSample ExVoice (ProcessAndConsumeAudio ExEnv 0 ExVoice 4) 0
              * EnvelopeGain ExInputs ExVoice 0)
           * (cos (PanAngle (PanPosition ExVoice)) * VolumeScale ExVoice)
   \<and> fst (Smooth_MixVoice 0 (1 / 2) [1, 1] ([1, 1, 1, 1], [1, 1, 1, 1])) ! 1
     = 1 + 1 * (cos (PanAngle 0) * (1 / 2))"
proof -
  have h: "bIsActive ExVoice" "4 = min 4 (SamplesRemaining ExVoice)" "Resampler ExVoice \<noteq> None"
    "bIsReversed ExVoice \<or> Reader ExVoice \<noteq> None" "0 < TotalGrainSamples ExVoice"
    "int 0 < FramesProduced (ProcessAndConsumeAudio ExEnv 0 ExVoice 4)"
    by (simp_all add: ExVoice_def ExEnv_def DefaultVoice_def)
  from equal_power_panning[OF h(1) h(2) _ h(3) h(4) h(5) refl h(6),
      of "[1, 1, 1, 1]" "[1, 1, 1, 1]" 1 "[1, 1]" 0 ExInputs "1 / 2"]
  show ?thesis
    by simp
qed

subsection \<open>Readers of forward grains\<close>

lemma Quantize_unat:
  fixes x :: "32 word"
  assumes "unat x + 127 < 2 ^ 32"
  shows "unat (Quantize x 128) = ((unat x + 127) div 128) * 128"
proof -
  define y where "y = x + 127"
  have q: "Quantize x 128 = y div 128 * 128"
    unfolding Quantize_def y_def by (simp add: add.commute)
  have "unat (x + 127) = unat x + unat (127 :: 32 word)"
    using assms by (subst unat_add_lem[THEN iffD1]) simp_all
  then have a: "unat y = unat x + 127"
    by (simp add: y_def)
  have b: "unat (y div 128) = (unat x + 127) div 128"
    by (simp add: unat_div a)
  have c: "(unat x + 127) div 128 * 128 \<le> unat x + 127"
    by simp
  have "unat (y div 128 * 128) = unat (y div 128) * unat (128 :: 32 word)"
    using assms c by (subst unat_mult_lem[THEN iffD1]) (simp_all add: b)
  then show ?thesis
    by (simp add: q b)
qed

lemma round_up_128:
  fixes n :: nat
  shows "n \<le> (n + 127) div 128 * 128 \<and> (n + 127) div 128 * 128 < n + 128
         \<and> 128 dvd (n + 127) div 128 * 128"
proof -
  have "(n + 127) div 128 * 128 + (n + 127) mod 128 = n + 127"
    by simp
  moreover have "(n + 127) mod 128 < 128"
    by simp
  ultimately show ?thesis
    by (simp add: less_eq_div_iff_mult_less_eq) linarith
qed

lemma Quantize_bounds:
  fixes x :: "32 word"
  assumes "unat x + 127 < 2 ^ 32"
  shows "unat x \<le> unat (Quantize x 128) \<and> unat (Quantize x 128) < unat x + 128
         \<and> 128 dvd unat (Quantize x 128)"
  unfolding Quantize_unat[OF assms] by (rule round_up_128)

lemma ConformDecodeSize_host:
  "DecodeSizeQuantizationInFrames env = 128 \<Longrightarrow> DefaultMinDecodeSizeInFrames env = 128
     \<Longrightarrow> ConformDecodeSize env = 256"
  by (simp add: ConformDecodeSize_def Let_def DeinterleaveBlockSizeFrames_def)

lemma SetupVoice_forward:
  "fst (SetupVoice env proxy ch d t r pan vol False n v)
     = CreateReader env proxy (GrainReaderSettings env t False)
   \<and> (fst (SetupVoice env proxy ch d t r pan vol False n v) \<longrightarrow>
        Reader (snd (SetupVoice env proxy ch d t r pan vol False n v))
          = Some (GrainReaderSettings env t False))"
  by (simp add: SetupVoice_def Let_def)

lemma TriggerGrain_slot:
  assumes "0 < CurrentNumChannels s" "MinGrainDurationSeconds \<le> CachedSoundWaveDuration s"
      and "0 < req" and "rv \<longrightarrow> 0 < n"
      and "FirstInactive (GrainVoices s) 0 \<noteq> - 1" and "j = nat (FirstInactive (GrainVoices s) 0)"
  shows "TriggerGrain env (Some proxy) req start ratio pan vol rv n s =
           (fst (SetupVoice env proxy (CurrentNumChannels s) req start ratio pan vol rv n
                   (GrainVoices s ! j)),
            s\<lparr>GrainVoices := (GrainVoices s)[j :=
                 snd (SetupVoice env proxy (CurrentNumChannels s) req start ratio pan vol rv n
                        (GrainVoices s ! j))]\<rparr>)"
  using assms by (auto simp add: TriggerGrain_def Let_def)

lemma Step8_TriggerGrain_slot:
  assumes "0 < CurrentNumChannels s" and "0 < req"
      and "FirstInactive (GrainVoices s) 0 \<noteq> - 1" and "j = nat (FirstInactive (GrainVoices s) 0)"
      and "j < length (GrainVoices s)"
  shows "fst (Step8_TriggerGrain env (Some proxy) req start ratio pan s)
           = CreateReader env proxy (Step8_GrainReaderSettings (BlockSize s) start)"
    and "fst (Step8_TriggerGrain env (Some proxy) req start ratio pan s) \<longrightarrow>
         Reader (GrainVoices (snd (Step8_TriggerGrain env (Some proxy) req start ratio pan s)) ! j)
           = Some (Step8_GrainReaderSettings (BlockSize s) start)"
  using assms by (simp_all add: Step8_TriggerGrain_def Let_def)

lemma Smooth_GrainReaderSettings_Some:
  "Smooth_GrainReaderSettings Rate Block Duration req start = Some rs \<Longrightarrow>
     \<not> bIsLooping rs
     \<and> (StartTimeInSeconds rs = max 0 start
          \<or> StartTimeInSeconds rs = ToFloat (Duration - Smooth_DurationInSeconds Rate req))
     \<and> 0 \<le> StartTimeInSeconds rs
     \<and> MaxDecodeSizeInFrames rs = Quantize (word_of_int (max req (Block * 2))) 128"
  by (auto simp add: Smooth_GrainReaderSettings_def Let_def split: if_splits)

lemma float_sum_bound:
  assumes "ToFloat x \<le> D" and "0 \<le> x"
  shows "x \<le> D + max (D / 2 ^ 23) (Pow2 (- 150))"
proof (cases "x / 2 ^ 24 \<le> Pow2 (- 150)")
  case True
  then have "\<bar>ToFloat x - x\<bar> \<le> Pow2 (- 150)"
    using ToFloat_error[of x] assms(2) by simp
  then show ?thesis using assms(1) by linarith
next
  case False
  then have "\<bar>ToFloat x - x\<bar> \<le> x / 2 ^ 24"
    using ToFloat_error[of x] assms(2) by simp
  then have a: "x - x / 2 ^ 24 \<le> D"
    using assms(1) by linarith
  have "x \<le> (x - x / 2 ^ 24) + (x - x / 2 ^ 24) / 2 ^ 23"
    using assms(2) by simp
  also have "\<dots> \<le> D + D / 2 ^ 23"
    using a by (intro add_mono divide_right_mono) simp_all
  finally show ?thesis by linarith
qed

lemma float_difference_bound:
  assumes "0 < ToFloat (D - d)" and "0 \<le> d"
  shows "ToFloat (D - d) + d \<le> D + max (D / 2 ^ 23) (Pow2 (- 150))"
proof -
  have p: "0 < D - d"
    using assms(1) ToFloat_nonpos[of "D - d"] by (cases "0 < D - d") simp_all
  have "\<bar>ToFloat (D - d) - (D - d)\<bar> \<le> max ((D - d) / 2 ^ 24) (Pow2 (- 150))"
    using ToFloat_error[of "D - d"] p by simp
  moreover have "(D - d) / 2 ^ 24 \<le> D / 2 ^ 23"
    using p assms(2) by (simp add: field_simps)
  ultimately show ?thesis by linarith
qed

lemma Smooth_DurationInSeconds_nonneg:
  "0 \<le> req \<Longrightarrow> 0 < Rate \<Longrightarrow> 0 \<le> Smooth_DurationInSeconds Rate req"
  unfolding Smooth_DurationInSeconds_def
  by (intro ToFloat_nonneg divide_nonneg_pos) simp_all

lemma Smooth_GrainReaderSettings_region:
  assumes "Smooth_GrainReaderSettings Rate Block Duration req start = Some rs"
      and "0 \<le> req" and "0 < Rate"
  shows "StartTimeInSeconds rs + Smooth_DurationInSeconds Rate req
           \<le> Duration + max (Duration / 2 ^ 23) (Pow2 (- 150))"
proof -
  let ?d = "Smooth_DurationInSeconds Rate req"
  have d: "0 \<le> ?d"
    by (rule Smooth_DurationInSeconds_nonneg[OF assms(2,3)])
  show ?thesis
  proof (cases "ToFloat (max 0 start + ?d) > Duration")
    case True
    then have "0 < ToFloat (Duration - ?d)"
      and "StartTimeInSeconds rs = ToFloat (Duration - ?d)"
      using assms(1)
      by (auto simp add: Smooth_GrainReaderSettings_def Let_def split: if_splits)
    then show ?thesis
      using float_difference_bound[OF _ d, of Duration] by simp
  next
    case False
    then have "StartTimeInSeconds rs = max 0 start"
      using assms(1)
      by (auto simp add: Smooth_GrainReaderSettings_def Let_def split: if_splits)
    moreover have "max 0 start + ?d \<le> Duration + max (Duration / 2 ^ 23) (Pow2 (- 150))"
      using False d by (intro float_sum_bound) simp_all
    ultimately show ?thesis by simp
  qed
qed

text \<open>Claim C7, amended. A forward grain that passes the checks of \<^verbatim>\<open>TriggerGrain\<close> and finds
  the free slot \<open>j\<close> is committed exactly when its reader can be created. The reader is
  opened at \<open>max 0 start\<close>. In \<^verbatim>\<open>FGranularSynthOperator\<close> it is a looping reader whose
  maximum decode size is the same for every grain (256 frames for the reader constants
  128 and 128); in the Step8 operator it is not looping and the decode size is twice the
  block length, at least 128, rounded up to a multiple of 128; in the Smooth operator it is
  not looping, starts at \<open>max 0 start\<close> or at the duration of the wave less the length of
  the grain (the single-precision difference), and the decode size is the larger of the grain length and twice the block
  length, rounded up to a multiple of 128. Rounding up adds less than 128 frames.\<close>

theorem forward_grain_reader_settings:
  assumes "0 < CurrentNumChannels s" and "MinGrainDurationSeconds \<le> CachedSoundWaveDuration s"
      and "0 < req"
      and "FirstInactive (GrainVoices s) 0 \<noteq> - 1" and "j = nat (FirstInactive (GrainVoices s) 0)"
      and "r = TriggerGrain env (Some proxy) req start ratio pan vol False n s"
      and "r8 = Step8_TriggerGrain env (Some proxy) req start ratio pan s"
  shows "fst r = CreateReader env proxy (GrainReaderSettings env start False)
     \<and> (fst r \<longrightarrow> Reader (GrainVoices (snd r) ! j)
           = Some \<lparr>StartTimeInSeconds = max 0 start, bIsLooping = True,
                   MaxDecodeSizeInFrames = ConformDecodeSize env\<rparr>)
     \<and> (DecodeSizeQuantizationInFrames env = 128 \<and> DefaultMinDecodeSizeInFrames env = 128
           \<longrightarrow> ConformDecodeSize env = 256)
     \<and> fst r8 = CreateReader env proxy (Step8_GrainReaderSettings (BlockSize s) start)
     \<and> (fst r8 \<longrightarrow> Reader (GrainVoices (snd r8) ! j)
           = Some \<lparr>StartTimeInSeconds = max 0 start, bIsLooping = False,
                   MaxDecodeSizeInFrames
                     = Quantize (max (word_of_int (BlockSize s * 2)) 128) 128\<rparr>)
     \<and> (\<forall>rs. Smooth_GrainReaderSettings Rate Block Duration req start = Some rs \<longrightarrow>
           \<not> bIsLooping rs
           \<and> (StartTimeInSeconds rs = max 0 start
                \<or> StartTimeInSeconds rs
                    = ToFloat (Duration - Smooth_DurationInSeconds Rate req))
           \<and> MaxDecodeSizeInFrames rs = Quantize (word_of_int (max req (Block * 2))) 128)
     \<and> (\<forall>x :: 32 word. unat x + 127 < 2 ^ 32 \<longrightarrow>
           unat x \<le> unat (Quantize x 128) \<and> unat (Quantize x 128) < unat x + 128)"
proof -
  let ?vs = "GrainVoices s"
  from FirstInactive_props[of ?vs 0 "FirstInactive ?vs 0"] assms(4)
  have jl: "j < length ?vs"
    by (simp add: assms(5))
  have T: "r = (fst (SetupVoice env proxy (CurrentNumChannels s) req start ratio pan vol False n
                   (?vs ! j)),
            s\<lparr>GrainVoices := ?vs[j :=
                 snd (SetupVoice env proxy (CurrentNumChannels s) req start ratio pan vol False n
                        (?vs ! j))]\<rparr>)"
    unfolding assms(6) by (rule TriggerGrain_slot[OF assms(1-3) _ assms(4,5)]) simp
  note F = SetupVoice_forward[of env proxy "CurrentNumChannels s" req start ratio pan vol n "?vs ! j"]
  have A: "fst r = CreateReader env proxy (GrainReaderSettings env start False)"
    using F by (simp add: T)
  have B: "fst r \<longrightarrow> Reader (GrainVoices (snd r) ! j)
           = Some \<lparr>StartTimeInSeconds = max 0 start, bIsLooping = True,
                   MaxDecodeSizeInFrames = ConformDecodeSize env\<rparr>"
    using F jl by (simp add: T GrainReaderSettings_def)
  note S = Step8_TriggerGrain_slot[OF assms(1) assms(3) assms(4) assms(5) jl, of env proxy start ratio pan]
  have C: "fst r8 = CreateReader env proxy (Step8_GrainReaderSettings (BlockSize s) start)"
    using S(1) by (simp add: assms(7))
  have D: "fst r8 \<longrightarrow> Reader (GrainVoices (snd r8) ! j)
           = Some \<lparr>StartTimeInSeconds = max 0 start, bIsLooping = False,
                   MaxDecodeSizeInFrames
                     = Quantize (max (word_of_int (BlockSize s * 2)) 128) 128\<rparr>"
    using S(2) by (simp add: assms(7) Step8_GrainReaderSettings_def)
  have E: "\<forall>rs. Smooth_GrainReaderSettings Rate Block Duration req start = Some rs \<longrightarrow>
           \<not> bIsLooping rs
           \<and> (StartTimeInSeconds rs = max 0 start
                \<or> StartTimeInSeconds rs
                    = ToFloat (Duration - Smooth_DurationInSeconds Rate req))
           \<and> MaxDecodeSizeInFrames rs = Quantize (word_of_int (max req (Block * 2))) 128"
    using Smooth_GrainReaderSettings_Some by blast
  have G: "\<forall>x :: 32 word. unat x + 127 < 2 ^ 32 \<longrightarrow>
           unat x \<le> unat (Quantize x 128) \<and> unat (Quantize x 128) < unat x + 128"
    using Quantize_bounds by blast
  have H: "DecodeSizeQuantizationInFrames env = 128 \<and> DefaultMinDecodeSizeInFrames env = 128
           \<longrightarrow> ConformDecodeSize env = 256"
    using ConformDecodeSize_host by blast
  show ?thesis
    using A B C D E G H by blast
qed

lemma ExPlaying_slot:
  "FirstInactive (GrainVoices ExPlaying) 0 = 0"
  by (simp add: ExPlaying_voices FirstInactive_replicate_default)

text \<open>Claim C7 on the playing example: a forward grain of 4800 samples from the start of the
  wave.\<close>

theorem forward_grain_reader_settings_witness:
  "fst (TriggerGrain ExEnv (Some ExProxy) 4800 0 1 0 1 False 0 ExPlaying)
   \<and> Reader (GrainVoices (snd (TriggerGrain ExEnv (Some ExProxy) 4800 0 1 0 1 False 0 ExPlaying)) ! 0)
       = Some \<lparr>StartTimeInSeconds = 0, bIsLooping = True, MaxDecodeSizeInFrames = 256\<rparr>
   \<and> Reader (GrainVoices (snd (Step8_TriggerGrain ExEnv (Some ExProxy) 4800 0 1 0 ExPlaying)) ! 0)
       = Some \<lparr>StartTimeInSeconds = 0, bIsLooping = False, MaxDecodeSizeInFrames = 128\<rparr>"
proof -
  have h: "0 < CurrentNumChannels ExPlaying"
    "MinGrainDurationSeconds \<le> CachedSoundWaveDuration ExPlaying"
    "FirstInactive (GrainVoices ExPlaying) 0 \<noteq> - 1"
    "0 = nat (FirstInactive (GrainVoices ExPlaying) 0)"
    by (simp_all add: ExPlaying_slot) (simp_all add: ExPlaying_def MinGrainDurationSeconds_def)
  have c: "ConformDecodeSize ExEnv = 256"
    by (rule ConformDecodeSize_host) (simp_all add: ExEnv_def)
  have q: "BlockSize ExPlaying = 4"
    by (simp add: ExPlaying_def Construct_def)
  have e: "CreateReader ExEnv ExProxy (GrainReaderSettings ExEnv 0 False)"
    "CreateReader ExEnv ExProxy (Step8_GrainReaderSettings 4 0)"
    by (simp_all add: ExEnv_def)
  from forward_grain_reader_settings[OF h(1) h(2) _ h(3) h(4) refl refl,
      of 4800 ExEnv ExProxy 0 1 0 1 0 48000 4 1]
  show ?thesis
    by (simp add: c q e Quantize_def)
qed

text \<open>Claim C7 as stated fails: the reader that \<^verbatim>\<open>FGranularSynthOperator\<close> opens for a forward
  grain is a looping reader.\<close>

theorem looping_reader_counterexample:
  "fst (TriggerGrain ExEnv (Some ExProxy) 4800 0 1 0 1 False 0 ExPlaying)
   \<and> map_option bIsLooping
        (Reader (GrainVoices (snd (TriggerGrain ExEnv (Some ExProxy) 4800 0 1 0 1 False 0
                                     ExPlaying)) ! 0))
       = Some True"
proof -
  have h: "0 < CurrentNumChannels ExPlaying"
    "MinGrainDurationSeconds \<le> CachedSoundWaveDuration ExPlaying"
    by (simp_all add: ExPlaying_def MinGrainDurationSeconds_def)
  have s: "FirstInactive (GrainVoices ExPlaying) 0 \<noteq> - 1"
    "0 = nat (FirstInactive (GrainVoices ExPlaying) 0)"
    by (simp_all add: ExPlaying_slot)
  have e: "CreateReader ExEnv ExProxy (GrainReaderSettings ExEnv 0 False)"
    by (simp add: ExEnv_def)
  have l: "0 < length (GrainVoices ExPlaying)"
    by (simp add: ExPlaying_voices)
  note T = TriggerGrain_slot[OF h _ _ s, of 4800 False 0 ExEnv ExProxy 0 1 0 1]
  note F = SetupVoice_forward[of ExEnv ExProxy "CurrentNumChannels ExPlaying" 4800 0 1 0 1 0
      "GrainVoices ExPlaying ! 0"]
  show ?thesis
    using F e l by (simp add: T GrainReaderSettings_def)
qed

subsection \<open>Source region of a grain\<close>

lemma ResolveReverseSegment_bounds:
  assumes "bIsValidSegment (ResolveReverseSegment Rate D c needed)"
  shows "0 \<le> FinalReaderStartTimeForSegment (ResolveReverseSegment Rate D c needed)"
    and "FinalReaderStartTimeForSegment (ResolveReverseSegment Rate D c needed)
           < ToFloat (ActualSegmentEnd (ResolveReverseSegment Rate D c needed) - Epsilon)"
    and "ActualSegmentEnd (ResolveReverseSegment Rate D c needed) \<le> D"
    and "0 < NumSourceFramesToReadForSegment (ResolveReverseSegment Rate D c needed)"
    and "NumSourceFramesToReadForSegment (ResolveReverseSegment Rate D c needed)
           = CeilToInt (ToFloat (ToFloat (ActualSegmentEnd (ResolveReverseSegment Rate D c needed)
               - FinalReaderStartTimeForSegment (ResolveReverseSegment Rate D c needed)) * Rate))"
  using assms
  by (auto simp add: ResolveReverseSegment_def Let_def split: if_splits)

lemma ResolveForwardStart_bounds:
  "0 \<le> ResolveForwardStart D c
   \<and> ResolveForwardStart D c \<le> max 0 (ToFloat (D - MinGrainDurationSeconds))"
  by (auto simp add: ResolveForwardStart_def)

lemma ResolveGrain_forward:
  "\<not> bFinalPlayThisGrainReverse (ResolveGrain inp Rate D u0 u1 u2 u3) \<Longrightarrow>
   \<exists>c. FinalReaderStartTimeForSegment (Segment (ResolveGrain inp Rate D u0 u1 u2 u3))
         = ResolveForwardStart D c"
  by (auto simp add: ResolveGrain_def Let_def)

lemma ResolveGrain_reverse:
  "bFinalPlayThisGrainReverse (ResolveGrain inp Rate D u0 u1 u2 u3) \<Longrightarrow>
   \<exists>c needed. Segment (ResolveGrain inp Rate D u0 u1 u2 u3)
         = ResolveReverseSegment Rate D c needed"
  by (auto simp add: ResolveGrain_def Let_def)

lemma SpawnGrain_committed:
  assumes "fst (SpawnGrain env inp s)"
  shows "bIsValidSegment (Segment (fst (snd (SpawnGrain env inp s))))"
    and "OutputGrainStartTimeRef (snd (snd (SpawnGrain env inp s)))
           = FinalReaderStartTimeForSegment (Segment (fst (snd (SpawnGrain env inp s))))"
    and "OutputGrainDurationSecRef (snd (snd (SpawnGrain env inp s)))
           = FinalOutputGrainDurationSeconds (fst (snd (SpawnGrain env inp s)))"
    and "fst (snd (SpawnGrain env inp s))
           = ResolveGrain inp (SampleRate s) (CachedSoundWaveDuration s)
               (FRand env (RandCount s)) (FRand env (RandCount s + 1))
               (FRand env (RandCount s + 2)) (FRand env (RandCount s + 3))"
  using assms
  by (simp_all add: SpawnGrain_def Let_def split: if_splits)

lemma float_values:
  "ToFloat (63 / 64) = 63 / 64" "ToFloat (55 / 64) = 55 / 64" "ToFloat (71 / 64) = 71 / 64"
  "ToFloat (1 / 8) = 1 / 8" "ToFloat (7 / 8) = 7 / 8" "ToFloat 6000 = 6000"
  "ToFloat (8658645272643 / 8796093022208) = 16515055 / 16777216"
  "ToFloat (1068373115 / 1073741824) = 8346665 / 8388608"
  by (simp_all add: ToFloat_val[of "- 1"] ToFloat_val[of 0] ToFloat_val[of "- 3"]
        ToFloat_val[of 12] Pow2_def RoundHalfEven_def)

lemma ExLateStart_grain:
  "ResolveGrain ExLateStart 48000 1 (1 / 2) (1 / 2) (1 / 2) (1 / 2) =
     \<lparr>FinalOutputGrainDurationSeconds = 1 / 8, OutputGrainDurationSamples = 6000,
      FinalTargetPitchShift = 0, FrameRatio = 1, bFinalPlayThisGrainReverse = False,
      Segment = \<lparr>FinalReaderStartTimeForSegment = 63 / 64, ActualSegmentEnd = 0,
                  NumSourceFramesToReadForSegment = 0, bIsValidSegment = True\<rparr>\<rparr>"
  by (simp add: ResolveGrain_def Let_def ExLateStart_def ExInputs_def FRandRange_def
        MaxStartPointRandMsValue_def MaxDurationRandSeconds_def BaseGrainDurationSeconds_def
        PitchRandSemitones_def BasePitchShiftSemitones_def Clamp_def
        MaxAbsPitchShiftSemitones_def Pow_def ReverseChanceVal_def ResolveForwardStart_def
        WrapIntoDuration_def Fmod_def TruncToInt_def float_values ToFloat_zero
        CeilToInt_def ToInt32_def MinGrainDurationSeconds_def UE_SMALL_NUMBER_def)

lemma ExReverse_grain:
  "ResolveGrain ExReverse 48000 1 (1 / 2) (1 / 2) (1 / 2) (1 / 2) =
     \<lparr>FinalOutputGrainDurationSeconds = 1 / 8, OutputGrainDurationSamples = 6000,
      FinalTargetPitchShift = 0, FrameRatio = 1, bFinalPlayThisGrainReverse = True,
      Segment = \<lparr>FinalReaderStartTimeForSegment = 55 / 64, ActualSegmentEnd = 63 / 64,
                  NumSourceFramesToReadForSegment = 6000, bIsValidSegment = True\<rparr>\<rparr>"
  by (simp add: ResolveGrain_def Let_def ExReverse_def ExLateStart_def ExInputs_def
        FRandRange_def
        MaxStartPointRandMsValue_def MaxDurationRandSeconds_def BaseGrainDurationSeconds_def
        PitchRandSemitones_def BasePitchShiftSemitones_def Clamp_def
        MaxAbsPitchShiftSemitones_def Pow_def ReverseChanceVal_def ResolveReverseSegment_def
        WrapIntoDuration_def Fmod_def TruncToInt_def float_values ToFloat_zero
        CeilToInt_def ToInt32_def MinGrainDurationSeconds_def UE_SMALL_NUMBER_def
        Epsilon_def)

lemma ExPlaying_fields:
  "SampleRate ExPlaying = 48000" "CachedSoundWaveDuration ExPlaying = 1"
  "RandCount ExPlaying = 0" "CurrentWaveProxy ExPlaying = Some ExProxy"
  "CurrentNumChannels ExPlaying = 1" "BlockSize ExPlaying = 4"
  by (simp_all add: ExPlaying_def Construct_def)

lemma ExEnv_FRand: "FRand ExEnv k = 1 / 2"
  by (simp add: ExEnv_def)

lemma ExPlaying_TriggerGrain_forward:
  "0 < req \<Longrightarrow> fst (TriggerGrain ExEnv (Some ExProxy) req start ratio pan vol False n
                      (ExPlaying\<lparr>RandCount := k\<rparr>))"
proof -
  assume r: "0 < req"
  have v: "GrainVoices (ExPlaying\<lparr>RandCount := k\<rparr>) = replicate 32 DefaultVoice"
    by (simp add: ExPlaying_voices)
  have s: "FirstInactive (GrainVoices (ExPlaying\<lparr>RandCount := k\<rparr>)) 0 = 0"
    by (simp add: v FirstInactive_replicate_default)
  have h: "0 < CurrentNumChannels (ExPlaying\<lparr>RandCount := k\<rparr>)"
    "MinGrainDurationSeconds \<le> CachedSoundWaveDuration (ExPlaying\<lparr>RandCount := k\<rparr>)"
    by (simp_all add: ExPlaying_fields MinGrainDurationSeconds_def)
  have s1: "FirstInactive (GrainVoices (ExPlaying\<lparr>RandCount := k\<rparr>)) 0 \<noteq> - 1"
    "0 = nat (FirstInactive (GrainVoices (ExPlaying\<lparr>RandCount := k\<rparr>)) 0)"
    by (simp_all add: ExPlaying_slot)
  note T = TriggerGrain_slot[OF h r _ s1, of False n ExEnv ExProxy start ratio pan vol]
  have cr: "CreateReader ExEnv ExProxy (GrainReaderSettings ExEnv start False)"
    by (simp add: ExEnv_def)
  show ?thesis
    using SetupVoice_forward[of ExEnv ExProxy 1 req start ratio pan vol n
        "GrainVoices ExPlaying ! 0"] cr
    by (simp add: T ExPlaying_fields)
qed

lemma ExPlaying_TriggerGrain_reversed:
  "0 < req \<Longrightarrow> 0 < n \<Longrightarrow>
     fst (TriggerGrain ExEnv (Some ExProxy) req start ratio pan vol True n
            (ExPlaying\<lparr>RandCount := k\<rparr>))"
proof -
  assume r: "0 < req" and n: "0 < n"
  have h: "0 < CurrentNumChannels (ExPlaying\<lparr>RandCount := k\<rparr>)"
    "MinGrainDurationSeconds \<le> CachedSoundWaveDuration (ExPlaying\<lparr>RandCount := k\<rparr>)"
    by (simp_all add: ExPlaying_fields MinGrainDurationSeconds_def)
  have s1: "FirstInactive (GrainVoices (ExPlaying\<lparr>RandCount := k\<rparr>)) 0 \<noteq> - 1"
    "0 = nat (FirstInactive (GrainVoices (ExPlaying\<lparr>RandCount := k\<rparr>)) 0)"
    by (simp_all add: ExPlaying_slot)
  have rn: "True \<longrightarrow> 0 < n"
    using n by simp
  note T = TriggerGrain_slot[OF h r rn s1, of ExEnv ExProxy start ratio pan vol]
  have cr: "CreateReader ExEnv ExProxy (GrainReaderSettings ExEnv start True)"
    by (simp add: ExEnv_def)
  have fr: "IntDiv (int (length (PopAudio ExEnv ExProxy (GrainReaderSettings ExEnv start True)
              n))) 1 = n"
    using n by (simp add: ExEnv_def IntDiv_def)
  show ?thesis
    using SetupVoice_reversed[OF prod.collapse[symmetric] refl, of ExEnv ExProxy 1 req start
        ratio pan vol n "GrainVoices ExPlaying ! 0"] cr n
    by (simp add: T ExPlaying_fields fr)
qed

text \<open>Claim C6 as stated fails: on a wave of one second, a forward grain of 125 ms at the
  start point 63/64 s is committed with start 63/64 s and duration 1/8 s, so that start
  plus duration is more than a tenth of a second past the end of the wave.\<close>

theorem region_past_end_counterexample:
  "fst (SpawnGrain ExEnv ExLateStart ExPlaying)
   \<and> \<not> bFinalPlayThisGrainReverse (fst (snd (SpawnGrain ExEnv ExLateStart ExPlaying)))
   \<and> OutputGrainStartTimeRef (snd (snd (SpawnGrain ExEnv ExLateStart ExPlaying))) = 63 / 64
   \<and> OutputGrainDurationSecRef (snd (snd (SpawnGrain ExEnv ExLateStart ExPlaying))) = 1 / 8
   \<and> CachedSoundWaveDuration (snd (snd (SpawnGrain ExEnv ExLateStart ExPlaying))) = 1
   \<and> \<not> (63 / 64 + 1 / 8 \<le> 1 + Epsilon)
   \<and> \<not> (63 / 64 + 1 / 8 \<le> (1 + 1 / 10 :: real))"
proof -
  have c: "fst (SpawnGrain ExEnv ExLateStart ExPlaying)"
    using ExPlaying_TriggerGrain_forward[of 6000]
    by (simp add: SpawnGrain_def Let_def ExPlaying_fields ExEnv_FRand ExLateStart_grain)
  note P = SpawnGrain_committed[OF c]
  have d: "CachedSoundWaveDuration (snd (snd (SpawnGrain ExEnv ExLateStart ExPlaying))) = 1"
    using ExPlaying_TriggerGrain_forward[of 6000]
    by (simp add: SpawnGrain_def Let_def ExPlaying_fields ExEnv_FRand ExLateStart_grain
          TriggerGrain_def)
  show ?thesis
    using c d
    by (simp add: P(2) P(3) P(4) ExPlaying_fields ExEnv_FRand ExLateStart_grain Epsilon_def)
qed

text \<open>Claim C6, amended. For a grain that \<^verbatim>\<open>FGranularSynthOperator\<close> commits, the reported start
  time is the start of the reader and is not negative. A forward grain starts no later than
  the single-precision difference of the duration of the wave and the minimal grain
  duration (or at 0); nothing bounds start plus duration. The segment that a reversed grain
  reads up front lies within the wave: its start is at least 0 and below the
  single-precision value of its end less \<^verbatim>\<open>Epsilon\<close>, its end is above \<^verbatim>\<open>Epsilon\<close> and at most
  the duration, and the number of source frames to read is computed from this clamped
  segment, before the frame ratio is applied to anything. In the Smooth operator a grain
  whose reader is opened starts at 0 or later and has start plus duration at most the
  duration of the wave plus \<open>\<epsilon>\<close>, where \<open>\<epsilon>\<close> is the duration times \<open>2^-23\<close> (or
  \<open>2^-150\<close> if that is more): the rounding of the single-precision sum or difference that
  the code compares or assigns.\<close>

theorem grain_source_region_bounds:
  assumes "r = SpawnGrain env inp s" and "g = fst (snd r)" and "fst r"
  shows "OutputGrainStartTimeRef (snd (snd r)) = FinalReaderStartTimeForSegment (Segment g)
     \<and> 0 \<le> FinalReaderStartTimeForSegment (Segment g)
     \<and> (\<not> bFinalPlayThisGrainReverse g \<longrightarrow>
           FinalReaderStartTimeForSegment (Segment g)
             \<le> max 0 (ToFloat (CachedSoundWaveDuration s - MinGrainDurationSeconds)))
     \<and> (bFinalPlayThisGrainReverse g \<longrightarrow>
           FinalReaderStartTimeForSegment (Segment g)
             < ToFloat (ActualSegmentEnd (Segment g) - Epsilon)
         \<and> Epsilon < ActualSegmentEnd (Segment g)
         \<and> ActualSegmentEnd (Segment g) \<le> CachedSoundWaveDuration s
         \<and> 0 < NumSourceFramesToReadForSegment (Segment g)
         \<and> NumSourceFramesToReadForSegment (Segment g)
             = CeilToInt (ToFloat (ToFloat (ActualSegmentEnd (Segment g)
                 - FinalReaderStartTimeForSegment (Segment g)) * SampleRate s)))
     \<and> (\<forall>rs. Smooth_GrainReaderSettings Rate Block Duration req start = Some rs
               \<and> 0 \<le> req \<and> 0 < Rate \<longrightarrow>
           0 \<le> StartTimeInSeconds rs
         \<and> StartTimeInSeconds rs + Smooth_DurationInSeconds Rate req
             \<le> Duration + max (Duration / 2 ^ 23) (Pow2 (- 150)))"
proof -
  have c: "fst (SpawnGrain env inp s)"
    using assms(1,3) by simp
  note P = SpawnGrain_committed[OF c, folded assms(1), folded assms(2)]
  let ?D = "CachedSoundWaveDuration s"
  have A: "OutputGrainStartTimeRef (snd (snd r)) = FinalReaderStartTimeForSegment (Segment g)"
    by (rule P(2))
  have S: "\<forall>rs. Smooth_GrainReaderSettings Rate Block Duration req start = Some rs
               \<and> 0 \<le> req \<and> 0 < Rate \<longrightarrow>
           0 \<le> StartTimeInSeconds rs
         \<and> StartTimeInSeconds rs + Smooth_DurationInSeconds Rate req
             \<le> Duration + max (Duration / 2 ^ 23) (Pow2 (- 150))"
    using Smooth_GrainReaderSettings_Some Smooth_GrainReaderSettings_region by blast
  show ?thesis
  proof (cases "bFinalPlayThisGrainReverse g")
    case True
    then obtain c needed where e: "Segment g = ResolveReverseSegment (SampleRate s) ?D c needed"
      using ResolveGrain_reverse unfolding P(4) by blast
    have v: "bIsValidSegment (ResolveReverseSegment (SampleRate s) ?D c needed)"
      using P(1) e by simp
    note B = ResolveReverseSegment_bounds[OF v, folded e]
    have "0 < ToFloat (ActualSegmentEnd (Segment g) - Epsilon)"
      using B(1) B(2) by linarith
    then have lt: "Epsilon < ActualSegmentEnd (Segment g)"
      using ToFloat_nonpos[of "ActualSegmentEnd (Segment g) - Epsilon"]
      by (cases "Epsilon < ActualSegmentEnd (Segment g)") simp_all
    show ?thesis
      using True A S B(1) B(2) lt B(3) B(4) B(5) by blast
  next
    case False
    then obtain c where e: "FinalReaderStartTimeForSegment (Segment g) = ResolveForwardStart ?D c"
      using ResolveGrain_forward unfolding P(4) by blast
    show ?thesis
      using False A S ResolveForwardStart_bounds[of ?D c] unfolding e by blast
  qed
qed

lemma ExSmooth_reader:
  "Smooth_DurationInSeconds 48000 6000 = 1 / 8"
  "map_option StartTimeInSeconds (Smooth_GrainReaderSettings 48000 4 1 6000 (63 / 64))
     = Some (7 / 8)"
proof -
  show d: "Smooth_DurationInSeconds 48000 6000 = 1 / 8"
    by (simp add: Smooth_DurationInSeconds_def float_values)
  show "map_option StartTimeInSeconds (Smooth_GrainReaderSettings 48000 4 1 6000 (63 / 64))
     = Some (7 / 8)"
    by (simp add: Smooth_GrainReaderSettings_def Let_def d float_values
          MinGrainDurationSeconds_def)
qed

text \<open>Claim C6 on the playing example: a reversed grain of 125 ms that ends 1/64 s before
  the end of the wave reads the 6000 frames from 55/64 s to 63/64 s; the forward grain of
  the same inputs starts at 63/64 s; and in the Smooth operator a grain of 6000 samples
  asked for at 63/64 s is moved to 7/8 s, where it ends with the wave.\<close>

theorem grain_source_region_bounds_witness:
  "fst (SpawnGrain ExEnv ExReverse ExPlaying)
   \<and> bFinalPlayThisGrainReverse (fst (snd (SpawnGrain ExEnv ExReverse ExPlaying)))
   \<and> OutputGrainStartTimeRef (snd (snd (SpawnGrain ExEnv ExReverse ExPlaying))) = 55 / 64
   \<and> ActualSegmentEnd (Segment (fst (snd (SpawnGrain ExEnv ExReverse ExPlaying)))) = 63 / 64
   \<and> NumSourceFramesToReadForSegment
        (Segment (fst (snd (SpawnGrain ExEnv ExReverse ExPlaying)))) = 6000
   \<and> OutputGrainStartTimeRef (snd (snd (SpawnGrain ExEnv ExLateStart ExPlaying))) = 63 / 64
   \<and> map_option StartTimeInSeconds (Smooth_GrainReaderSettings 48000 4 1 6000 (63 / 64))
       = Some (7 / 8)
   \<and> 7 / 8 + Smooth_DurationInSeconds 48000 6000 = 1"
proof -
  have c: "fst (SpawnGrain ExEnv ExReverse ExPlaying)"
    using ExPlaying_TriggerGrain_reversed[of 6000 6000]
    by (simp add: SpawnGrain_def Let_def ExPlaying_fields ExEnv_FRand ExReverse_grain)
  have g: "fst (snd (SpawnGrain ExEnv ExReverse ExPlaying))
             = ResolveGrain ExReverse 48000 1 (1 / 2) (1 / 2) (1 / 2) (1 / 2)"
    using SpawnGrain_committed(4)[OF c] by (simp add: ExPlaying_fields ExEnv_FRand)
  have c': "fst (SpawnGrain ExEnv ExLateStart ExPlaying)"
    using ExPlaying_TriggerGrain_forward[of 6000]
    by (simp add: SpawnGrain_def Let_def ExPlaying_fields ExEnv_FRand ExLateStart_grain)
  have g': "fst (snd (SpawnGrain ExEnv ExLateStart ExPlaying))
             = ResolveGrain ExLateStart 48000 1 (1 / 2) (1 / 2) (1 / 2) (1 / 2)"
    using SpawnGrain_committed(4)[OF c'] by (simp add: ExPlaying_fields ExEnv_FRand)
  note R = grain_source_region_bounds[OF refl refl c]
  note F = grain_source_region_bounds[OF refl refl c']
  have a: "OutputGrainStartTimeRef (snd (snd (SpawnGrain ExEnv ExReverse ExPlaying))) = 55 / 64"
    using R by (simp add: g ExReverse_grain)
  have b: "OutputGrainStartTimeRef (snd (snd (SpawnGrain ExEnv ExLateStart ExPlaying))) = 63 / 64"
    using F by (simp add: g' ExLateStart_grain)
  show ?thesis
    using c a b by (simp add: g ExReverse_grain ExSmooth_reader)
qed

subsection \<open>The grain scheduler\<close>





lemma JitteredInterval_ge_1: "1 \<le> JitteredInterval Base J u"
  by (simp add: JitteredInterval_def MinSamplesPerGrainInterval_def)














subsection \<open>Output buffers\<close>

lemma ArrayMixIn_length_eq [simp]: "length (ArrayMixIn xs out g) = length out"
  by (induction xs out g rule: ArrayMixIn.induct) auto


lemma ProcessVoice_out_length:
  "length (fst (snd (ProcessVoice env inp B idx v out))) = length (fst out)"
  "length (snd (snd (ProcessVoice env inp B idx v out))) = length (snd out)"
  by (simp_all add: ProcessVoice_def Let_def)





lemma ProcessVoices_out_length:
  "length (fst (snd (ProcessVoices env inp B idx vs out))) = length (fst out)
   \<and> length (snd (snd (ProcessVoices env inp B idx vs out))) = length (snd out)"
  by (induction vs arbitrary: idx out) (simp_all add: Let_def ProcessVoice_out_length)





















end
